theory Spec2Isabelle
  imports Complex_Main "HOL-Library.Log_Nat"
begin

section \<open>JavaScript numbers\<close>

text \<open>
  A JavaScript number is an IEEE 754 binary64 value. \<open>Fin r\<close> is the finite double
  whose exact value is the rational \<open>r\<close> (\<open>Fin 0\<close> is +0), \<open>NegZero\<close> is -0.
  Arithmetic computes the exact rational result and rounds it to the nearest double,
  ties to even, as the hardware does.
\<close>

datatype jsnum = Fin rat | NegZero | PInf | NInf | NaN

definition pow2 :: "int \<Rightarrow> rat" where
  "pow2 e = (if 0 \<le> e then 2 ^ nat e else 1 / 2 ^ nat (- e))"

definition round_even :: "rat \<Rightarrow> int" where
  "round_even q = (let f = \<lfloor>q\<rfloor>; d = q - of_int f in
     if d < 1 / 2 then f else if 1 / 2 < d then f + 1 else if even f then f else f + 1)"

text \<open>For \<open>0 < x\<close>: the exponent \<open>e\<close> with \<open>2 ^ e \<le> x < 2 ^ (e + 1)\<close>.\<close>

definition binade :: "rat \<Rightarrow> int" where
  "binade x = (let (p, q) = quotient_of x; c = bitlen p - bitlen q in
     if pow2 c \<le> x then c else c - 1)"

definition signed_zero :: "bool \<Rightarrow> jsnum" where
  "signed_zero negative = (if negative then NegZero else Fin 0)"

definition signed_inf :: "bool \<Rightarrow> jsnum" where
  "signed_inf negative = (if negative then NInf else PInf)"

text \<open>Rounding of an exact result to binary64: 53 significant bits, exponents from
  -1022 (below it the spacing stays \<open>2 ^ -1074\<close>) to 1023 (above it, infinity).\<close>

definition round_double :: "rat \<Rightarrow> jsnum" where
  "round_double x =
     (if x = 0 then Fin 0
      else let a = \<bar>x\<bar>;
               e = max (binade a) (- 1022);
               q = pow2 (e - 52);
               r = of_int (round_even (a / q)) * q
           in if r = 0 then signed_zero (x < 0)
              else if 1023 < binade r then signed_inf (x < 0)
              else Fin (if x < 0 then - r else r))"

definition is_neg :: "jsnum \<Rightarrow> bool" where
  "is_neg x = (case x of Fin r \<Rightarrow> r < 0 | NegZero \<Rightarrow> True | NInf \<Rightarrow> True | _ \<Rightarrow> False)"

definition is_zero :: "jsnum \<Rightarrow> bool" where
  "is_zero x = (x = Fin 0 \<or> x = NegZero)"

definition is_inf :: "jsnum \<Rightarrow> bool" where
  "is_inf x = (x = PInf \<or> x = NInf)"

definition val :: "jsnum \<Rightarrow> rat" where
  "val x = (case x of Fin r \<Rightarrow> r | _ \<Rightarrow> 0)"

definition fneg :: "jsnum \<Rightarrow> jsnum" where
  "fneg x = (case x of Fin r \<Rightarrow> (if r = 0 then NegZero else Fin (- r))
       | NegZero \<Rightarrow> Fin 0 | PInf \<Rightarrow> NInf | NInf \<Rightarrow> PInf | NaN \<Rightarrow> NaN)"

definition fadd :: "jsnum \<Rightarrow> jsnum \<Rightarrow> jsnum" where
  "fadd x y =
     (if x = NaN \<or> y = NaN then NaN
      else if is_inf x then (if is_inf y \<and> x \<noteq> y then NaN else x)
      else if is_inf y then y
      else if is_zero x \<and> is_zero y then signed_zero (x = NegZero \<and> y = NegZero)
      else round_double (val x + val y))"

definition fsub :: "jsnum \<Rightarrow> jsnum \<Rightarrow> jsnum" where
  "fsub x y = fadd x (fneg y)"

definition fmul :: "jsnum \<Rightarrow> jsnum \<Rightarrow> jsnum" where
  "fmul x y =
     (if x = NaN \<or> y = NaN then NaN
      else if is_inf x \<or> is_inf y then
        (if is_zero x \<or> is_zero y then NaN else signed_inf (is_neg x \<noteq> is_neg y))
      else if is_zero x \<or> is_zero y then signed_zero (is_neg x \<noteq> is_neg y)
      else round_double (val x * val y))"

definition fdiv :: "jsnum \<Rightarrow> jsnum \<Rightarrow> jsnum" where
  "fdiv x y =
     (if x = NaN \<or> y = NaN then NaN
      else if is_inf x then (if is_inf y then NaN else signed_inf (is_neg x \<noteq> is_neg y))
      else if is_inf y then signed_zero (is_neg x \<noteq> is_neg y)
      else if is_zero y then (if is_zero x then NaN else signed_inf (is_neg x \<noteq> is_neg y))
      else if is_zero x then signed_zero (is_neg x \<noteq> is_neg y)
      else round_double (val x / val y))"

text \<open>The comparison \<open>x >= y\<close> of two numbers: false as soon as one is NaN.\<close>

definition fge :: "jsnum \<Rightarrow> jsnum \<Rightarrow> bool" where
  "fge x y = (x \<noteq> NaN \<and> y \<noteq> NaN \<and>
     (x = PInf \<or> y = NInf \<or> (\<not> is_inf x \<and> \<not> is_inf y \<and> val y \<le> val x)))"

section \<open>JavaScript values\<close>

text \<open>
  The values that \<open>response.json()\<close> and \<open>JSON.parse\<close> produce, and \<open>undefined\<close>
  for what is absent. An object is its list of members in source order.
\<close>

datatype jsval = Undefined | Null | Bool bool | Num jsnum | Str string
  | Arr "jsval list" | Obj "(string \<times> jsval) list"

datatype jserror = TypeError | RangeError | SyntaxError | FetchError | PlotlyError
  | Error jsval

text \<open>
  Built-ins of the browser that the repository calls and does not define:
  \<open>JSON_parse v\<close> is \<open>JSON.parse(v)\<close> (\<open>None\<close> for its SyntaxError),
  \<open>Number_toString r\<close> the text of the finite double \<open>r\<close> as \<open>String(r)\<close> gives it,
  \<open>Date_toISOString v\<close> is \<open>new Date(v).toISOString()\<close> (\<open>None\<close> for the RangeError
  of an invalid date), \<open>Number_toLocaleString\<close> the locale's rendering of a number.
\<close>

record host =
  JSON_parse :: "jsval \<Rightarrow> jsval option"
  Number_toString :: "rat \<Rightarrow> string"
  Date_toISOString :: "jsval \<Rightarrow> string option"
  Number_toLocaleString :: "jsnum \<Rightarrow> string"

definition nullish :: "jsval \<Rightarrow> bool" where
  "nullish v = (v = Undefined \<or> v = Null)"

definition truthy :: "jsval \<Rightarrow> bool" where
  "truthy v = (case v of Undefined \<Rightarrow> False | Null \<Rightarrow> False | Bool b \<Rightarrow> b
     | Num n \<Rightarrow> \<not> is_zero n \<and> n \<noteq> NaN | Str s \<Rightarrow> s \<noteq> [] | Arr _ \<Rightarrow> True | Obj _ \<Rightarrow> True)"

text \<open>
  Member access \<open>v.k\<close> on a value that is neither \<open>null\<close> nor \<open>undefined\<close> (there the
  source throws a TypeError, which every caller checks with \<open>nullish\<close> first). Of a
  repeated key the parser keeps the last member. The keys read by the scripts are no
  properties of the built-in prototypes, so every other value answers \<open>undefined\<close>.
\<close>

definition get :: "jsval \<Rightarrow> string \<Rightarrow> jsval" where
  "get v k = (case v of
       Obj kvs \<Rightarrow> (case map_of (rev kvs) k of Some x \<Rightarrow> x | None \<Rightarrow> Undefined)
     | _ \<Rightarrow> Undefined)"

subsection \<open>Number.prototype.toFixed\<close>

function digits10 :: "int \<Rightarrow> string" where
  "digits10 n = (if n < 10 then [''0123456789'' ! nat n]
     else digits10 (n div 10) @ [''0123456789'' ! nat (n mod 10)])"
  by pat_completeness auto
termination
  by (relation "measure nat") auto

declare digits10.simps [simp del]

text \<open>
  \<open>x.toFixed(f)\<close> (the scripts pass 1 and 2): the integer \<open>n\<close> with \<open>n / 10 ^ f\<close>
  nearest to \<open>\<bar>x\<bar>\<close> (the larger one of two), written with at least \<open>f + 1\<close> digits
  and a point before the last \<open>f\<close>; the sign is that of \<open>x < 0\<close>, so -0 prints without
  one. From \<open>10 ^ 21\<close> on the result is \<open>String(x)\<close>.
\<close>

definition toFixed :: "host \<Rightarrow> nat \<Rightarrow> jsnum \<Rightarrow> string" where
  "toFixed h f x = (case x of
       NaN \<Rightarrow> ''NaN'' | PInf \<Rightarrow> ''Infinity'' | NInf \<Rightarrow> ''-Infinity''
     | _ \<Rightarrow>
         (let r = val x in
          if 10 ^ 21 \<le> \<bar>r\<bar> then Number_toString h r
          else let m = digits10 \<lfloor>\<bar>r\<bar> * 10 ^ f + 1 / 2\<rfloor>;
                   m' = replicate (f + 1 - length m) (CHR ''0'') @ m;
                   k = length m'
               in (if r < 0 then ''-'' else []) @ take (k - f) m' @
                  (if f = 0 then [] else ''.'' @ drop (k - f) m')))"

text \<open>The method call \<open>v.toFixed(2)\<close> on a truthy value: only numbers have the method.\<close>

definition call_toFixed :: "host \<Rightarrow> jsval \<Rightarrow> jserror + string" where
  "call_toFixed h v = (case v of Num n \<Rightarrow> Inr (toFixed h 2 n) | _ \<Rightarrow> Inl TypeError)"

subsection \<open>Conversion of strings and values to numbers\<close>

text \<open>
  Strings are sequences of UTF-8 bytes. The white space that the conversion to a number
  trims: TAB, LF, VT, FF, CR, SP, and the encodings of U+00A0, U+1680, U+2000 to
  U+200A, U+2028, U+2029, U+202F, U+205F, U+3000 and U+FEFF.
\<close>

definition white_space :: "string list" where
  "white_space =
     map (\<lambda>c. [c]) [CHR 0x09, CHR 0x0A, CHR 0x0B, CHR 0x0C, CHR 0x0D, CHR 0x20] @
     [[CHR 0xC2, CHR 0xA0], [CHR 0xE1, CHR 0x9A, CHR 0x80]] @
     map (\<lambda>c. [CHR 0xE2, CHR 0x80, c])
       [CHR 0x80, CHR 0x81, CHR 0x82, CHR 0x83, CHR 0x84, CHR 0x85, CHR 0x86, CHR 0x87,
        CHR 0x88, CHR 0x89, CHR 0x8A, CHR 0xA8, CHR 0xA9, CHR 0xAF] @
     [[CHR 0xE2, CHR 0x81, CHR 0x9F], [CHR 0xE3, CHR 0x80, CHR 0x80],
      [CHR 0xEF, CHR 0xBB, CHR 0xBF]]"

text \<open>The number of bytes of the white space character that a string starts with, or
  ends with; 0 when there is none.\<close>

definition leading_ws :: "string \<Rightarrow> nat" where
  "leading_ws s = (case find (\<lambda>w. take (length w) s = w) white_space of
       None \<Rightarrow> 0 | Some w \<Rightarrow> length w)"

definition trailing_ws :: "string \<Rightarrow> nat" where
  "trailing_ws s = (case find (\<lambda>w. take (length w) (rev s) = rev w) white_space of
       None \<Rightarrow> 0 | Some w \<Rightarrow> length w)"

function trim_start :: "string \<Rightarrow> string" where
  "trim_start s = (if s \<noteq> [] \<and> leading_ws s \<noteq> 0 then trim_start (drop (leading_ws s) s)
     else s)"
  by pat_completeness auto
termination
  by (relation "measure length") auto

function trim_end :: "string \<Rightarrow> string" where
  "trim_end s = (if s \<noteq> [] \<and> trailing_ws s \<noteq> 0
     then trim_end (take (length s - trailing_ws s) s) else s)"
  by pat_completeness auto
termination
  by (relation "measure length") auto

declare trim_start.simps [simp del] trim_end.simps [simp del]

definition trim :: "string \<Rightarrow> string" where
  "trim s = trim_end (trim_start s)"

definition char_digit :: "char \<Rightarrow> int option" where
  "char_digit c = (let n = (of_char c :: int) in
     if 48 \<le> n \<and> n \<le> 57 then Some (n - 48)
     else if 97 \<le> n \<and> n \<le> 122 then Some (n - 87)
     else if 65 \<le> n \<and> n \<le> 90 then Some (n - 55)
     else None)"

definition is_digit :: "int \<Rightarrow> char \<Rightarrow> bool" where
  "is_digit radix c = (case char_digit c of Some d \<Rightarrow> d < radix | None \<Rightarrow> False)"

definition digits_val :: "int \<Rightarrow> string \<Rightarrow> int" where
  "digits_val radix ds =
     foldl (\<lambda>acc c. acc * radix + (case char_digit c of Some d \<Rightarrow> d | None \<Rightarrow> 0)) 0 ds"

definition pow10 :: "int \<Rightarrow> rat" where
  "pow10 e = (if 0 \<le> e then 10 ^ nat e else 1 / 10 ^ nat (- e))"

text \<open>The exponent part of a decimal literal: nothing, or \<open>e\<close>/\<open>E\<close>, a sign and digits.\<close>

definition parse_exponent :: "string \<Rightarrow> int option" where
  "parse_exponent r =
     (case r of [] \<Rightarrow> Some 0
      | c # t \<Rightarrow>
          if c = CHR ''e'' \<or> c = CHR ''E'' then
            (let ds = (case t of [] \<Rightarrow> [] | d # t' \<Rightarrow>
                         if d = CHR ''+'' \<or> d = CHR ''-'' then t' else t)
             in if ds \<noteq> [] \<and> list_all (is_digit 10) ds
                then Some (if hd t = CHR ''-'' then - digits_val 10 ds else digits_val 10 ds)
                else None)
          else None)"

text \<open>An unsigned decimal literal: digits, a point and digits (one of the two digit
  runs may be empty), an exponent part.\<close>

definition parse_unsigned_decimal :: "string \<Rightarrow> rat option" where
  "parse_unsigned_decimal s =
     (let ip = takeWhile (is_digit 10) s;
          r1 = dropWhile (is_digit 10) s;
          dot = (r1 \<noteq> [] \<and> hd r1 = CHR ''.'');
          fp = (if dot then takeWhile (is_digit 10) (tl r1) else []);
          r2 = (if dot then dropWhile (is_digit 10) (tl r1) else r1)
      in if ip = [] \<and> fp = [] then None
         else (case parse_exponent r2 of None \<Rightarrow> None
               | Some ex \<Rightarrow>
                   Some (of_int (digits_val 10 (ip @ fp)) * pow10 (ex - int (length fp)))))"

definition parse_radix :: "int \<Rightarrow> string \<Rightarrow> jsnum" where
  "parse_radix radix ds =
     (if ds \<noteq> [] \<and> list_all (is_digit radix) ds
      then round_double (of_int (digits_val radix ds)) else NaN)"

text \<open>
  The number a string converts to: white space is trimmed, the empty string is 0,
  \<open>0x\<close>, \<open>0o\<close> and \<open>0b\<close> start unsigned literals in base 16, 8 and 2, everything else is
  a signed decimal literal or \<open>Infinity\<close>, and what is none of these is NaN.
\<close>

definition StringToNumber :: "string \<Rightarrow> jsnum" where
  "StringToNumber s =
     (let t = trim s in
      if t = [] then Fin 0
      else if take 2 t = ''0x'' \<or> take 2 t = ''0X'' then parse_radix 16 (drop 2 t)
      else if take 2 t = ''0o'' \<or> take 2 t = ''0O'' then parse_radix 8 (drop 2 t)
      else if take 2 t = ''0b'' \<or> take 2 t = ''0B'' then parse_radix 2 (drop 2 t)
      else let negative = (hd t = CHR ''-'');
               u = (if hd t = CHR ''+'' \<or> hd t = CHR ''-'' then tl t else t)
           in if u = ''Infinity'' then signed_inf negative
              else (case parse_unsigned_decimal u of None \<Rightarrow> NaN
                    | Some v \<Rightarrow> (if negative then fneg (round_double v) else round_double v)))"

text \<open>
  \<open>String(v)\<close> throws for an object whose own \<open>toString\<close> member shadows the inherited
  method (a parsed member is never a function), also inside an array.
\<close>

fun stringifiable :: "jsval \<Rightarrow> bool" where
  "stringifiable (Obj kvs) = (''toString'' \<notin> fst ` set kvs)"
| "stringifiable (Arr xs) = list_all stringifiable xs"
| "stringifiable _ = True"

text \<open>
  \<open>ToNumber\<close>, as the operators \<open>>=\<close> and \<open>/\<close> apply it. An array converts through its
  text: the empty one is 0, one with a single element converts as that element's text
  does, a longer one has a comma in its text and is NaN.
\<close>

fun ToNumber :: "jsval \<Rightarrow> jserror + jsnum" where
  "ToNumber Undefined = Inr NaN"
| "ToNumber Null = Inr (Fin 0)"
| "ToNumber (Bool b) = Inr (Fin (if b then 1 else 0))"
| "ToNumber (Num n) = Inr n"
| "ToNumber (Str s) = Inr (StringToNumber s)"
| "ToNumber (Obj kvs) = (if stringifiable (Obj kvs) then Inr NaN else Inl TypeError)"
| "ToNumber (Arr []) = Inr (Fin 0)"
| "ToNumber (Arr [x]) =
     (case x of Undefined \<Rightarrow> Inr (Fin 0) | Null \<Rightarrow> Inr (Fin 0) | Bool _ \<Rightarrow> Inr NaN
      | Num n \<Rightarrow> Inr (if n = NegZero then Fin 0 else n)
      | Str s \<Rightarrow> Inr (StringToNumber s)
      | Arr ys \<Rightarrow> ToNumber (Arr ys)
      | Obj kvs \<Rightarrow> ToNumber (Obj kvs))"
| "ToNumber (Arr (x # y # zs)) =
     (if list_all stringifiable (x # y # zs) then Inr NaN else Inl TypeError)"

text \<open>
  What \<open>throw new Error(v)\<close> throws: the constructor converts a message other than
  \<open>undefined\<close> to a string, and where that conversion throws, its TypeError is thrown
  in place of the new error.
\<close>

definition new_Error :: "jsval \<Rightarrow> jserror" where
  "new_Error v = (if stringifiable v then Error v else TypeError)"

section \<open>The dashboard page (dashboard.js)\<close>

subsection \<open>State\<close>

text \<open>What the chart library shows in the \<open>mainChart\<close> element.\<close>

record plot =
  traces :: jsval
  layout :: jsval
  config :: jsval

text \<open>
  The elements that the constructor looks up, with the attributes the script reads or
  writes. A text attribute holds the value last assigned to it, which the browser
  shows as text.
\<close>

record elements =
  mainChart_plot :: "plot option"
  timeframeSelect_value :: string
  rsiToggle_checked :: bool
  macdToggle_checked :: bool
  signalsToggle_checked :: bool
  lastPrice_textContent :: jsval
  priceChange_textContent :: jsval
  priceChange_className :: string
  volume_textContent :: jsval
  signalMessage_textContent :: jsval
  signalDetails_innerHTML :: jsval
  llmMessage_textContent :: jsval
  llmDetails_innerHTML :: jsval

datatype graph_div = GraphDiv

datatype request = GET string | POST string jsval

datatype plotly_call = NewPlot | React

text \<open>
  The fields of \<open>DashboardManager\<close>, and what the script does to the browser: the
  running interval timers (identifier and period in milliseconds), the lines written
  with \<open>console.error\<close>, the \<open>alert\<close> boxes shown, the requests sent and the calls
  made to the chart library.
\<close>

record dashboard =
  mainChart :: "graph_div option"
  lastUpdateTime :: "jsval option"
  updateInterval :: "nat option"
  timeframe :: string
  elements :: elements
  timers :: "(nat \<times> nat) list"
  next_timer :: nat
  console :: "(string \<times> jserror option) list"
  alerts :: "string list"
  requests :: "request list"
  plotly_calls :: "plotly_call list"

text \<open>What the awaits of a request give: the fetch is rejected, the body is not JSON,
  or the body parses to a value.\<close>

datatype response = NetworkFailure | NotJSON | JSON jsval

text \<open>What the await of a chart library call gives: the promise is resolved and the
  chart is drawn, or it is rejected, and the element holds whatever the library had
  made of it by then.\<close>

datatype plot_outcome = Resolved | Rejected "plot option"

text \<open>The page as the template delivers it.\<close>

definition template :: elements where
  "template = \<lparr>mainChart_plot = None, timeframeSelect_value = ''1h'',
     rsiToggle_checked = True, macdToggle_checked = True, signalsToggle_checked = True,
     lastPrice_textContent = Str ''-'', priceChange_textContent = Str ''-'',
     priceChange_className = ''value'', volume_textContent = Str ''-'',
     signalMessage_textContent = Str ''No signal available'',
     signalDetails_innerHTML = Str [],
     llmMessage_textContent = Str ''No analysis available'',
     llmDetails_innerHTML = Str []\<rparr>"

text \<open>The fields as the constructor sets them, before \<open>initialize\<close> runs.\<close>

definition constructed :: dashboard where
  "constructed = \<lparr>mainChart = None, lastUpdateTime = None, updateInterval = None,
     timeframe = ''1h'', elements = template, timers = [], next_timer = 1,
     console = [], alerts = [], requests = [], plotly_calls = []\<rparr>"

subsection \<open>The chart library\<close>

text \<open>
  \<open>Plotly.newPlot\<close> draws the element anew with the given configuration;
  \<open>Plotly.react\<close> called without one replaces traces and layout and keeps the
  configuration of the plot it finds. After a call that is rejected the element holds
  what the outcome says.
\<close>

definition chart_config :: jsval where
  "chart_config = Obj [(''responsive'', Bool True), (''scrollZoom'', Bool True),
     (''displayModeBar'', Bool True),
     (''modeBarButtonsToRemove'', Arr [Str ''autoScale2d'', Str ''lasso2d'', Str ''select2d''])]"

definition Plotly_newPlot :: "jsval \<Rightarrow> jsval \<Rightarrow> jsval \<Rightarrow> elements \<Rightarrow> elements" where
  "Plotly_newPlot d l c el = el\<lparr>mainChart_plot := Some \<lparr>traces = d, layout = l, config = c\<rparr>\<rparr>"

definition Plotly_react :: "jsval \<Rightarrow> jsval \<Rightarrow> elements \<Rightarrow> elements" where
  "Plotly_react d l el = el\<lparr>mainChart_plot := Some \<lparr>traces = d, layout = l,
     config = (case mainChart_plot el of Some p \<Rightarrow> config p | None \<Rightarrow> Undefined)\<rparr>\<rparr>"

definition Plotly_rejected :: "plot option \<Rightarrow> elements \<Rightarrow> elements" where
  "Plotly_rejected left el = el\<lparr>mainChart_plot := left\<rparr>"

subsection \<open>Operations\<close>

definition console_error :: "string \<Rightarrow> jserror option \<Rightarrow> dashboard \<Rightarrow> dashboard" where
  "console_error msg e s = s\<lparr>console := console s @ [(msg, e)]\<rparr>"

definition showError :: "string \<Rightarrow> dashboard \<Rightarrow> dashboard" where
  "showError message s =
     (let s1 = console_error message None s in s1\<lparr>alerts := alerts s1 @ [message]\<rparr>)"

text \<open>Statements in sequence: once one has thrown, the following ones do not run, and
  what the earlier ones wrote stays written.\<close>

definition seq :: "jserror option \<times> 'a \<Rightarrow> ('a \<Rightarrow> jserror option \<times> 'a) \<Rightarrow> jserror option \<times> 'a" where
  "seq r f = (case r of (None, s) \<Rightarrow> f s | (Some e, s) \<Rightarrow> (Some e, s))"

definition formatVolume :: "host \<Rightarrow> jsval \<Rightarrow> jserror + string" where
  "formatVolume h volume =
     (case ToNumber volume of Inl e \<Rightarrow> Inl e
      | Inr n \<Rightarrow>
          if fge n (Fin (10 ^ 9)) then Inr (toFixed h 2 (fdiv n (Fin (10 ^ 9))) @ ''B'')
          else if fge n (Fin (10 ^ 6)) then Inr (toFixed h 2 (fdiv n (Fin (10 ^ 6))) @ ''M'')
          else if fge n (Fin (10 ^ 3)) then Inr (toFixed h 2 (fdiv n (Fin (10 ^ 3))) @ ''K'')
          else call_toFixed h volume)"

definition update_lastPrice :: "host \<Rightarrow> jsval \<Rightarrow> elements \<Rightarrow> jserror option \<times> elements" where
  "update_lastPrice h data el =
     (if truthy (get data ''lastPrice'') then
        (case call_toFixed h (get data ''lastPrice'') of
           Inl e \<Rightarrow> (Some e, el)
         | Inr t \<Rightarrow> (None, el\<lparr>lastPrice_textContent := Str t\<rparr>))
      else (None, el))"

text \<open>\<open>change\<close> is the text that \<open>toFixed\<close> returns, and \<open>change >= 0\<close> compares the
  number that this text converts to.\<close>

definition update_priceChange :: "host \<Rightarrow> jsval \<Rightarrow> elements \<Rightarrow> jserror option \<times> elements" where
  "update_priceChange h data el =
     (if truthy (get data ''priceChange'') then
        (case call_toFixed h (get data ''priceChange'') of
           Inl e \<Rightarrow> (Some e, el)
         | Inr change \<Rightarrow>
             (None, el\<lparr>priceChange_textContent := Str (change @ ''%''),
                priceChange_className := ''value '' @
                  (if fge (StringToNumber change) (Fin 0) then ''positive'' else ''negative'')\<rparr>))
      else (None, el))"

definition update_volume :: "host \<Rightarrow> jsval \<Rightarrow> elements \<Rightarrow> jserror option \<times> elements" where
  "update_volume h data el =
     (if truthy (get data ''volume'') then
        (case formatVolume h (get data ''volume'') of
           Inl e \<Rightarrow> (Some e, el)
         | Inr t \<Rightarrow> (None, el\<lparr>volume_textContent := Str t\<rparr>))
      else (None, el))"

text \<open>An assignment to \<open>textContent\<close> or \<open>innerHTML\<close> converts the value to text, and
  throws where that conversion does.\<close>

definition update_signal :: "jsval \<Rightarrow> elements \<Rightarrow> jserror option \<times> elements" where
  "update_signal data el =
     (let signal = get data ''signal'' in
      if truthy signal then
        (if \<not> stringifiable (get signal ''message'') then (Some TypeError, el)
         else let el1 = el\<lparr>signalMessage_textContent := get signal ''message''\<rparr>;
                  details = (if truthy (get signal ''details'') then get signal ''details''
                             else Str [])
              in if \<not> stringifiable details then (Some TypeError, el1)
                 else (None, el1\<lparr>signalDetails_innerHTML := details\<rparr>))
      else (None, el))"

definition update_llmAnalysis :: "jsval \<Rightarrow> elements \<Rightarrow> jserror option \<times> elements" where
  "update_llmAnalysis data el =
     (let llmAnalysis = get data ''llmAnalysis'' in
      if truthy llmAnalysis then
        (if \<not> stringifiable (get llmAnalysis ''message'') then (Some TypeError, el)
         else let el1 = el\<lparr>llmMessage_textContent := get llmAnalysis ''message''\<rparr>;
                  details = (if truthy (get llmAnalysis ''details'')
                             then get llmAnalysis ''details'' else Str [])
              in if \<not> stringifiable details then (Some TypeError, el1)
                 else (None, el1\<lparr>llmDetails_innerHTML := details\<rparr>))
      else (None, el))"

definition updateMarketSummary :: "host \<Rightarrow> jsval \<Rightarrow> elements \<Rightarrow> jserror option \<times> elements" where
  "updateMarketSummary h data el =
     seq (seq (seq (seq (update_lastPrice h data el) (update_priceChange h data))
       (update_volume h data)) (update_signal data)) (update_llmAnalysis data)"

text \<open>
  The two statements that end both try blocks: the summary, then the time stamp.
  \<open>new Date(v)\<close> converts an object to a primitive first and throws where that
  conversion does; the field holds the argument of the date.
\<close>

definition finish_render :: "host \<Rightarrow> jsval \<Rightarrow> dashboard \<Rightarrow> jserror option \<times> dashboard" where
  "finish_render h data s =
     (case updateMarketSummary h data (elements s) of
        (Some e, el) \<Rightarrow> (Some e, s\<lparr>elements := el\<rparr>)
      | (None, el) \<Rightarrow>
          if stringifiable (get data ''lastUpdate'')
          then (None, s\<lparr>elements := el, lastUpdateTime := Some (get data ''lastUpdate'')\<rparr>)
          else (Some TypeError, s\<lparr>elements := el\<rparr>))"

text \<open>\<open>fetchChartData\<close> up to its first await: the request leaves with the timeframe
  of that moment.\<close>

definition fetchChartData_send :: "dashboard \<Rightarrow> dashboard" where
  "fetchChartData_send s =
     s\<lparr>requests := requests s @ [GET (''/api/chart-data?timeframe='' @ timeframe s)]\<rparr>"

text \<open>The rest of the try block, run when the response is there. The await on the
  chart library is taken to resume before any other callback runs.\<close>

definition fetchChartData_try ::
  "host \<Rightarrow> response \<Rightarrow> plot_outcome \<Rightarrow> dashboard \<Rightarrow> jserror option \<times> dashboard" where
  "fetchChartData_try h resp po s =
     (case resp of
        NetworkFailure \<Rightarrow> (Some FetchError, s)
      | NotJSON \<Rightarrow> (Some SyntaxError, s)
      | JSON data \<Rightarrow>
          if nullish data then (Some TypeError, s)
          else if \<not> truthy (get data ''success'') then (Some (new_Error (get data ''error'')), s)
          else (case JSON_parse h (get data ''data'') of
                  None \<Rightarrow> (Some SyntaxError, s)
                | Some chartData \<Rightarrow>
                    if nullish chartData then (Some TypeError, s)
                    else if mainChart s = None then
                      (case po of
                         Rejected left \<Rightarrow>
                           (Some PlotlyError,
                            s\<lparr>elements := Plotly_rejected left (elements s),
                              plotly_calls := plotly_calls s @ [NewPlot]\<rparr>)
                       | Resolved \<Rightarrow>
                           finish_render h data
                             (s\<lparr>mainChart := Some GraphDiv,
                                elements := Plotly_newPlot (get chartData ''data'')
                                  (get chartData ''layout'') chart_config (elements s),
                                plotly_calls := plotly_calls s @ [NewPlot]\<rparr>))
                    else
                      (case po of
                         Rejected left \<Rightarrow>
                           (Some PlotlyError,
                            s\<lparr>elements := Plotly_rejected left (elements s),
                              plotly_calls := plotly_calls s @ [React]\<rparr>)
                       | Resolved \<Rightarrow>
                           finish_render h data
                             (s\<lparr>elements := Plotly_react (get chartData ''data'')
                                  (get chartData ''layout'') (elements s),
                                plotly_calls := plotly_calls s @ [React]\<rparr>))))"

definition fetchChartData_resume ::
  "host \<Rightarrow> response \<Rightarrow> plot_outcome \<Rightarrow> dashboard \<Rightarrow> dashboard" where
  "fetchChartData_resume h resp po s =
     (case fetchChartData_try h resp po s of
        (None, s') \<Rightarrow> s'
      | (Some e, s') \<Rightarrow>
          showError ''Failed to fetch chart data''
            (console_error ''Failed to fetch chart data:'' (Some e) s'))"

definition fetchChartData :: "host \<Rightarrow> response \<Rightarrow> plot_outcome \<Rightarrow> dashboard \<Rightarrow> dashboard" where
  "fetchChartData h resp po s = fetchChartData_resume h resp po (fetchChartData_send s)"

text \<open>The table of \<open>startRealTimeUpdates\<close>. The timeframe is a value of the select's
  options or the constructor's 1h, none of them a key that an object inherits.\<close>

definition intervals :: "(string \<times> nat) list" where
  "intervals = [(''1m'', 1000), (''5m'', 5000), (''15m'', 15000), (''1h'', 60000),
     (''4h'', 240000), (''1d'', 300000)]"

definition clearInterval :: "nat \<Rightarrow> dashboard \<Rightarrow> dashboard" where
  "clearInterval i s = s\<lparr>timers := filter (\<lambda>t. fst t \<noteq> i) (timers s)\<rparr>"

definition startRealTimeUpdates :: "dashboard \<Rightarrow> dashboard" where
  "startRealTimeUpdates s =
     (let s1 = (case updateInterval s of
                  Some i \<Rightarrow> (if i \<noteq> 0 then clearInterval i s else s)
                | None \<Rightarrow> s);
          interval = (case map_of intervals (timeframe s1) of
                        Some ms \<Rightarrow> (if ms \<noteq> 0 then ms else 60000)
                      | None \<Rightarrow> 60000)
      in s1\<lparr>updateInterval := Some (next_timer s1),
            timers := timers s1 @ [(next_timer s1, interval)],
            next_timer := Suc (next_timer s1)\<rparr>)"

text \<open>\<open>fetchChartData\<close> catches whatever its body throws and \<open>startRealTimeUpdates\<close>
  throws nothing, so the catch clause of \<open>initialize\<close> is never entered.\<close>

definition initialize :: "host \<Rightarrow> response \<Rightarrow> plot_outcome \<Rightarrow> dashboard \<Rightarrow> dashboard" where
  "initialize h resp po s = startRealTimeUpdates (fetchChartData h resp po s)"

definition fetchUpdate_try ::
  "host \<Rightarrow> response \<Rightarrow> plot_outcome \<Rightarrow> dashboard \<Rightarrow> jserror option \<times> dashboard" where
  "fetchUpdate_try h resp po s =
     (case lastUpdateTime s of
        None \<Rightarrow> (Some TypeError, s)
      | Some t \<Rightarrow>
          (case Date_toISOString h t of
             None \<Rightarrow> (Some RangeError, s)
           | Some iso_text \<Rightarrow>
               (let s0 = s\<lparr>requests := requests s @
                       [POST ''/api/update''
                          (Obj [(''timeframe'', Str (timeframe s)), (''lastUpdate'', Str iso_text)])]\<rparr>
                in case resp of
                     NetworkFailure \<Rightarrow> (Some FetchError, s0)
                   | NotJSON \<Rightarrow> (Some SyntaxError, s0)
                   | JSON data \<Rightarrow>
                       if nullish data then (Some TypeError, s0)
                       else if \<not> truthy (get data ''success'')
                         then (Some (new_Error (get data ''error'')), s0)
                       else (case JSON_parse h (get data ''data'') of
                               None \<Rightarrow> (Some SyntaxError, s0)
                             | Some chartData \<Rightarrow>
                                 if nullish chartData then (Some TypeError, s0)
                                 else (case po of
                                         Rejected left \<Rightarrow>
                                           (Some PlotlyError,
                                            s0\<lparr>elements := Plotly_rejected left (elements s0),
                                               plotly_calls := plotly_calls s0 @ [React]\<rparr>)
                                       | Resolved \<Rightarrow>
                                           finish_render h data
                                             (s0\<lparr>elements := Plotly_react (get chartData ''data'')
                                                  (get chartData ''layout'') (elements s0),
                                                plotly_calls := plotly_calls s0 @ [React]\<rparr>))))))"

definition fetchUpdate :: "host \<Rightarrow> response \<Rightarrow> plot_outcome \<Rightarrow> dashboard \<Rightarrow> dashboard" where
  "fetchUpdate h resp po s =
     (case fetchUpdate_try h resp po s of
        (None, s') \<Rightarrow> s'
      | (Some e, s') \<Rightarrow> console_error ''Failed to fetch update:'' (Some e) s')"

text \<open>The request of a toggle: its error, if it throws before the refresh.\<close>

definition toggle_request :: "response \<Rightarrow> jserror option" where
  "toggle_request resp =
     (case resp of
        NetworkFailure \<Rightarrow> Some FetchError
      | NotJSON \<Rightarrow> Some SyntaxError
      | JSON data \<Rightarrow>
          if nullish data then Some TypeError
          else if \<not> truthy (get data ''success'') then Some (new_Error (get data ''error''))
          else None)"

definition toggleIndicator ::
  "host \<Rightarrow> string \<Rightarrow> response \<Rightarrow> response \<Rightarrow> plot_outcome \<Rightarrow> dashboard \<Rightarrow> dashboard" where
  "toggleIndicator h indicator resp chart_resp po s =
     (let s0 = s\<lparr>requests := requests s @
                [POST ''/api/toggle-indicator'' (Obj [(''indicator'', Str indicator)])]\<rparr>
      in case toggle_request resp of
           None \<Rightarrow> fetchChartData h chart_resp po s0
         | Some e \<Rightarrow>
             showError (''Failed to toggle '' @ indicator)
               (console_error (''Failed to toggle '' @ indicator @ '':'') (Some e) s0))"

definition toggleSignals ::
  "host \<Rightarrow> response \<Rightarrow> response \<Rightarrow> plot_outcome \<Rightarrow> dashboard \<Rightarrow> dashboard" where
  "toggleSignals h resp chart_resp po s =
     (let s0 = s\<lparr>requests := requests s @ [POST ''/api/toggle-signals'' Undefined]\<rparr>
      in case toggle_request resp of
           None \<Rightarrow> fetchChartData h chart_resp po s0
         | Some e \<Rightarrow>
             showError ''Failed to toggle signals''
               (console_error ''Failed to toggle signals:'' (Some e) s0))"

subsection \<open>Event handlers\<close>

text \<open>
  The listeners that \<open>bindEvents\<close> registers. The browser has changed the control
  (the selected option, the check mark) when it raises \<open>change\<close>. The \<open>resize\<close>
  listener only has the chart library refit the chart and is left out.
\<close>

definition timeframeSelect_change ::
  "host \<Rightarrow> string \<Rightarrow> response \<Rightarrow> plot_outcome \<Rightarrow> dashboard \<Rightarrow> dashboard" where
  "timeframeSelect_change h v resp po s =
     fetchChartData h resp po
       (s\<lparr>elements := (elements s)\<lparr>timeframeSelect_value := v\<rparr>, timeframe := v\<rparr>)"

definition rsiToggle_change ::
  "host \<Rightarrow> response \<Rightarrow> response \<Rightarrow> plot_outcome \<Rightarrow> dashboard \<Rightarrow> dashboard" where
  "rsiToggle_change h resp chart_resp po s =
     toggleIndicator h ''rsi'' resp chart_resp po
       (s\<lparr>elements := (elements s)\<lparr>rsiToggle_checked := \<not> rsiToggle_checked (elements s)\<rparr>\<rparr>)"

definition macdToggle_change ::
  "host \<Rightarrow> response \<Rightarrow> response \<Rightarrow> plot_outcome \<Rightarrow> dashboard \<Rightarrow> dashboard" where
  "macdToggle_change h resp chart_resp po s =
     toggleIndicator h ''macd'' resp chart_resp po
       (s\<lparr>elements := (elements s)\<lparr>macdToggle_checked := \<not> macdToggle_checked (elements s)\<rparr>\<rparr>)"

definition signalsToggle_change ::
  "host \<Rightarrow> response \<Rightarrow> response \<Rightarrow> plot_outcome \<Rightarrow> dashboard \<Rightarrow> dashboard" where
  "signalsToggle_change h resp chart_resp po s =
     toggleSignals h resp chart_resp po
       (s\<lparr>elements := (elements s)\<lparr>signalsToggle_checked :=
          \<not> signalsToggle_checked (elements s)\<rparr>\<rparr>)"

section \<open>The market page (second client script)\<close>

text \<open>
  The script of the page with the symbol and interval selectors. The array that
  \<open>/api/market-data\<close> answers holds candles with numeric prices and volume; the
  indicator columns go to the chart library as they come.
\<close>

record candle =
  timestamp :: jsval
  open_price :: jsnum
  high :: jsnum
  low :: jsnum
  close :: jsnum
  volume :: jsnum
  rsi :: jsval
  macd_line :: jsval
  signal_line :: jsval
  macd_histogram :: jsval

record signals =
  signal :: jsnum
  confidence :: jsnum

datatype trace =
    Candlestick "jsval list" "jsnum list" "jsnum list" "jsnum list" "jsnum list"
  | Bar string "jsval list" "jsval list"
  | Scatter string "jsval list" "jsval list"

text \<open>
  The \<open>config\<close> object, the attributes of the elements looked up at the top of the
  script, the plots made (element, traces, title) and the console.
\<close>

record market_page =
  config_symbol :: string
  config_interval :: string
  lastPrice_text :: string
  priceChange_text :: string
  priceChange_color :: string
  volume_text :: string
  latestSignal_text :: string
  latestSignal_color :: string
  signalConfidence_text :: string
  plots :: "(string \<times> trace list \<times> string) list"
  errors :: "(string \<times> jserror) list"

text \<open>What a request of this script gives: an error on the way (the fetch, the body,
  a status other than success), or the \<open>data\<close> member, \<open>None\<close> when it is falsy.\<close>

datatype 'a api_response = Failed jserror | Data "'a option"

text \<open>\<open>xs[i]\<close>: \<open>undefined\<close> (here \<open>None\<close>) outside the array.\<close>

definition item :: "'a list \<Rightarrow> int \<Rightarrow> 'a option" where
  "item xs i = (if 0 \<le> i \<and> i < int (length xs) then Some (xs ! nat i) else None)"

definition newPlot :: "string \<Rightarrow> trace list \<Rightarrow> string \<Rightarrow> market_page \<Rightarrow> market_page" where
  "newPlot element ts title p = p\<lparr>plots := plots p @ [(element, ts, title)]\<rparr>"

definition createPriceChart :: "candle list \<Rightarrow> market_page \<Rightarrow> market_page" where
  "createPriceChart data p =
     newPlot ''price-chart''
       [Candlestick (map timestamp data) (map open_price data) (map high data)
          (map low data) (map close data)]
       (config_symbol p @ '' Price'') p"

definition createVolumeChart :: "candle list \<Rightarrow> market_page \<Rightarrow> market_page" where
  "createVolumeChart data p =
     newPlot ''volume-chart''
       [Bar ''Volume'' (map timestamp data) (map (\<lambda>d. Num (volume d)) data)] ''Volume'' p"

definition createIndicatorCharts :: "candle list \<Rightarrow> market_page \<Rightarrow> market_page" where
  "createIndicatorCharts data p =
     newPlot ''macd-chart''
       [Scatter ''MACD'' (map timestamp data) (map macd_line data),
        Scatter ''Signal'' (map timestamp data) (map signal_line data),
        Bar ''Histogram'' (map timestamp data) (map macd_histogram data)] ''MACD''
       (newPlot ''rsi-chart'' [Scatter ''RSI'' (map timestamp data) (map rsi data)] ''RSI'' p)"

definition fetchMarketData ::
  "candle list api_response \<Rightarrow> market_page \<Rightarrow> candle list option \<times> market_page" where
  "fetchMarketData resp p = (case resp of
       Failed e \<Rightarrow> (None, p\<lparr>errors := errors p @ [(''Error fetching market data:'', e)]\<rparr>)
     | Data d \<Rightarrow> (d, p))"

definition fetchSignals ::
  "signals api_response \<Rightarrow> market_page \<Rightarrow> signals option \<times> market_page" where
  "fetchSignals resp p = (case resp of
       Failed e \<Rightarrow> (None, p\<lparr>errors := errors p @ [(''Error fetching signals:'', e)]\<rparr>)
     | Data d \<Rightarrow> (d, p))"

definition updateMarketInfo ::
  "host \<Rightarrow> candle list \<Rightarrow> market_page \<Rightarrow> jserror option \<times> market_page" where
  "updateMarketInfo h data p =
     (let latest = item data (int (length data) - 1);
          prev = item data (int (length data) - 2)
      in case latest of
           None \<Rightarrow> (Some TypeError, p)
         | Some l \<Rightarrow>
             (let p1 = p\<lparr>lastPrice_text := toFixed h 2 (close l)\<rparr>
              in case prev of
                   None \<Rightarrow> (Some TypeError, p1)
                 | Some v \<Rightarrow>
                     (let change = fmul (fdiv (fsub (close l) (close v)) (close v)) (Fin 100)
                      in (None,
                          p1\<lparr>priceChange_text := toFixed h 2 change @ ''%'',
                             priceChange_color :=
                               (if fge change (Fin 0) then ''var(--success-color)''
                                else ''var(--error-color)''),
                             volume_text := Number_toLocaleString h (volume l)\<rparr>))))"

text \<open>\<open>x > 0\<close> and \<open>x < 0\<close> are false for NaN.\<close>

definition fgt :: "jsnum \<Rightarrow> jsnum \<Rightarrow> bool" where
  "fgt x y = (fge x y \<and> \<not> fge y x)"

definition updateSignals :: "host \<Rightarrow> signals option \<Rightarrow> market_page \<Rightarrow> market_page" where
  "updateSignals h sg p = (case sg of
       None \<Rightarrow> p
     | Some s \<Rightarrow>
         p\<lparr>latestSignal_text :=
             (if fgt (signal s) (Fin 0) then ''BUY''
              else if fgt (Fin 0) (signal s) then ''SELL'' else ''NEUTRAL''),
           latestSignal_color :=
             (if fgt (signal s) (Fin 0) then ''var(--success-color)''
              else if fgt (Fin 0) (signal s) then ''var(--error-color)''
              else ''var(--text-color)''),
           signalConfidence_text :=
             ''Confidence: '' @ toFixed h 1 (fmul (confidence s) (Fin 100)) @ ''%''\<rparr>)"

text \<open>\<open>updateDashboard\<close> has no try block: what \<open>updateMarketInfo\<close> throws rejects the
  promise it returns, and the signals are not fetched.\<close>

definition updateDashboard ::
  "host \<Rightarrow> candle list api_response \<Rightarrow> signals api_response \<Rightarrow> market_page \<Rightarrow>
     jserror option \<times> market_page" where
  "updateDashboard h market sresp p =
     (case fetchMarketData market p of
        (None, p1) \<Rightarrow> (None, p1)
      | (Some data, p1) \<Rightarrow>
          (case updateMarketInfo h data
                  (createIndicatorCharts data (createVolumeChart data (createPriceChart data p1))) of
             (Some e, p2) \<Rightarrow> (Some e, p2)
           | (None, p2) \<Rightarrow>
               (case fetchSignals sresp p2 of (sg, p3) \<Rightarrow> (None, updateSignals h sg p3))))"

section \<open>Example values\<close>

text \<open>
  The text \<open>{"data":[{"y":[n]}],"layout":{}}\<close> of a chart and the value it parses to.
\<close>

definition dq :: "string \<Rightarrow> string" where
  "dq s = CHR 0x22 # s @ [CHR 0x22]"

definition chart_text :: "string \<Rightarrow> string" where
  "chart_text n = ''{'' @ dq ''data'' @ '':[{'' @ dq ''y'' @ '':['' @ n @ '']}],'' @
     dq ''layout'' @ '':{}}''"

definition chart_value :: "rat \<Rightarrow> jsval" where
  "chart_value r = Obj [(''data'', Arr [Obj [(''y'', Arr [Num (Fin r)])]]), (''layout'', Obj [])]"

definition time1 :: string where
  "time1 = ''2024-01-01T00:00:00.000Z''"

definition time2 :: string where
  "time2 = ''2024-01-01T00:01:00.000Z''"

text \<open>A browser for the examples: it answers as a browser does on the two chart texts,
  the two time stamps and the numbers that the examples hand to it.\<close>

definition host0 :: host where
  "host0 = \<lparr>
     JSON_parse = (\<lambda>v. if v = Str (chart_text ''1'') then Some (chart_value 1)
                       else if v = Str (chart_text ''2'') then Some (chart_value 2)
                       else None),
     Number_toString = (\<lambda>r. ''1e+21''),
     Date_toISOString = (\<lambda>v. if v = Str time1 then Some time1
                             else if v = Str time2 then Some time2 else None),
     Number_toLocaleString = (\<lambda>n. ''5'')\<rparr>"

text \<open>Two answers of \<open>/api/chart-data\<close>, the first with a signal, and an answer of
  \<open>/api/update\<close> whose price is a string.\<close>

definition payload_A :: jsval where
  "payload_A = Obj [(''success'', Bool True), (''data'', Str (chart_text ''1'')),
     (''lastPrice'', Num (Fin 100)), (''priceChange'', Num (Fin (1 / 2))),
     (''volume'', Num (Fin 1500000)), (''lastUpdate'', Str time1),
     (''signal'', Obj [(''message'', Str ''BUY'')])]"

definition payload_B :: jsval where
  "payload_B = Obj [(''success'', Bool True), (''data'', Str (chart_text ''2'')),
     (''lastPrice'', Num (Fin 101)), (''priceChange'', Num (Fin (- 5 / 4))),
     (''volume'', Num (Fin 2300)), (''lastUpdate'', Str time2)]"


text \<open>An answer that reports a failure of the backend, with the price as a string.\<close>

definition payload_failure :: jsval where
  "payload_failure = Obj [(''success'', Bool False), (''error'', Str ''no data''),
     (''lastPrice'', Str ''101.5'')]"

text \<open>A payload without price change and volume, for the summary.\<close>

definition payload_flat :: jsval where
  "payload_flat = Obj [(''success'', Bool True), (''lastPrice'', Null),
     (''priceChange'', Num (Fin 0)), (''volume'', Num (Fin 0))]"

text \<open>The page after the constructor has rendered the first answer.\<close>

definition rendered_A :: dashboard where
  "rendered_A = fetchChartData host0 (JSON payload_A) Resolved constructed"

text \<open>
  Two requests under way: the one of \<open>initialize\<close> for 1h, and the one of the change
  handler after the user has selected 5m. The answer for 5m arrives first and is
  rendered; then the answer for 1h arrives.
\<close>

definition both_sent :: dashboard where
  "both_sent = fetchChartData_send
     ((fetchChartData_send constructed)
        \<lparr>elements := template\<lparr>timeframeSelect_value := ''5m''\<rparr>, timeframe := ''5m''\<rparr>)"

definition newer_rendered :: dashboard where
  "newer_rendered = fetchChartData_resume host0 (JSON payload_B) Resolved both_sent"

definition older_arrived :: dashboard where
  "older_arrived = fetchChartData_resume host0 (JSON payload_A) Resolved newer_rendered"

definition candle1 :: candle where
  "candle1 = \<lparr>timestamp = Num (Fin 1704067200000), open_price = Fin 10, high = Fin 12,
     low = Fin 9, close = Fin 10, volume = Fin 5, rsi = Null, macd_line = Null,
     signal_line = Null, macd_histogram = Null\<rparr>"

definition candle2 :: candle where
  "candle2 = \<lparr>timestamp = Num (Fin 1704067260000), open_price = Fin 10, high = Fin 12,
     low = Fin 10, close = Fin 11, volume = Fin 5, rsi = Null, macd_line = Null,
     signal_line = Null, macd_histogram = Null\<rparr>"

definition market_page0 :: market_page where
  "market_page0 = \<lparr>config_symbol = ''BTCUSDT'', config_interval = ''1m'',
     lastPrice_text = ''-'', priceChange_text = ''-'', priceChange_color = [],
     volume_text = ''-'', latestSignal_text = ''-'', latestSignal_color = [],
     signalConfidence_text = [], plots = [], errors = []\<rparr>"

section \<open>Volume and price change formatting\<close>

lemma formatVolume_1500000: "formatVolume h (Num (Fin 1500000)) = Inr ''1.50M''"
  by code_simp

lemma formatVolume_2300: "formatVolume h (Num (Fin 2300)) = Inr ''2.30K''"
  by code_simp

lemma formatVolume_500: "formatVolume h (Num (Fin 500)) = Inr ''500.00''"
  by code_simp

lemma digits10_nonempty: "digits10 n \<noteq> []"
  by (subst digits10.simps) simp

lemma toFixed_two_decimals:
  assumes "\<bar>r\<bar> < 10 ^ 21"
  shows "\<exists>ip fr. toFixed h 2 (Fin r) = (if r < 0 then ''-'' else []) @ ip @ ''.'' @ fr \<and>
     ip \<noteq> [] \<and> length fr = 2"
proof -
  define m where "m = digits10 \<lfloor>\<bar>r\<bar> * 10 ^ 2 + 1 / 2\<rfloor>"
  define m' where "m' = replicate (2 + 1 - length m) (CHR ''0'') @ m"
  have "m \<noteq> []" by (simp add: m_def digits10_nonempty)
  then have len: "3 \<le> length m'" by (cases m) (auto simp: m'_def)
  have "toFixed h 2 (Fin r) =
      (if r < 0 then ''-'' else []) @ take (length m' - 2) m' @ ''.'' @ drop (length m' - 2) m'"
    using assms by (simp add: toFixed_def val_def Let_def m_def m'_def)
  moreover have "take (length m' - 2) m' \<noteq> []" "length (drop (length m' - 2) m') = 2"
    using len by auto
  ultimately show ?thesis by blast
qed

text \<open>
  Claim C5. For a number \<open>v\<close>, \<open>formatVolume\<close> returns \<open>v / 1e9\<close> to two decimals with
  the suffix B when \<open>v >= 1e9\<close>, else \<open>v / 1e6\<close> with M when \<open>v >= 1e6\<close>, else
  \<open>v / 1e3\<close> with K when \<open>v >= 1e3\<close>, else \<open>v\<close> to two decimals without a suffix;
  1500000 gives 1.50M, 2300 gives 2.30K and 500 gives 500.00. To two decimals: below
  \<open>10 ^ 21\<close> the text of \<open>toFixed(2)\<close> is a sign, digits, a point and two digits.
\<close>

theorem formatVolume_suffixes:
  "formatVolume h (Num v) =
     Inr (if fge v (Fin (10 ^ 9)) then toFixed h 2 (fdiv v (Fin (10 ^ 9))) @ ''B''
          else if fge v (Fin (10 ^ 6)) then toFixed h 2 (fdiv v (Fin (10 ^ 6))) @ ''M''
          else if fge v (Fin (10 ^ 3)) then toFixed h 2 (fdiv v (Fin (10 ^ 3))) @ ''K''
          else toFixed h 2 v)
   \<and> formatVolume h (Num (Fin 1500000)) = Inr ''1.50M''
   \<and> formatVolume h (Num (Fin 2300)) = Inr ''2.30K''
   \<and> formatVolume h (Num (Fin 500)) = Inr ''500.00''
   \<and> (\<forall>r. \<bar>r\<bar> < 10 ^ 21 \<longrightarrow>
        (\<exists>ip fr. toFixed h 2 (Fin r) = (if r < 0 then ''-'' else []) @ ip @ ''.'' @ fr \<and>
           ip \<noteq> [] \<and> length fr = 2))"
proof -
  have "formatVolume h (Num v) =
     Inr (if fge v (Fin (10 ^ 9)) then toFixed h 2 (fdiv v (Fin (10 ^ 9))) @ ''B''
          else if fge v (Fin (10 ^ 6)) then toFixed h 2 (fdiv v (Fin (10 ^ 6))) @ ''M''
          else if fge v (Fin (10 ^ 3)) then toFixed h 2 (fdiv v (Fin (10 ^ 3))) @ ''K''
          else toFixed h 2 v)"
    by (simp add: formatVolume_def call_toFixed_def)
  then show ?thesis
    using formatVolume_1500000 formatVolume_2300 formatVolume_500 toFixed_two_decimals
    by blast
qed

theorem formatVolume_suffixes_witness:
  "\<bar>23 / 10 :: rat\<bar> < 10 ^ 21 \<and>
   (\<exists>ip fr. toFixed host0 2 (Fin (23 / 10)) = ip @ ''.'' @ fr \<and> ip \<noteq> [] \<and> length fr = 2) \<and>
   formatVolume host0 (Num (Fin 2300)) = Inr ''2.30K''"
proof -
  have small: "\<bar>23 / 10 :: rat\<bar> < 10 ^ 21" by simp
  from formatVolume_suffixes [of host0] small
  have "\<exists>ip fr. toFixed host0 2 (Fin (23 / 10)) =
      (if (23 / 10 :: rat) < 0 then ''-'' else []) @ ip @ ''.'' @ fr \<and> ip \<noteq> [] \<and> length fr = 2"
    by blast
  then have "\<exists>ip fr. toFixed host0 2 (Fin (23 / 10)) = ip @ ''.'' @ fr \<and> ip \<noteq> [] \<and> length fr = 2"
    by simp
  with small formatVolume_suffixes [of host0] show ?thesis by blast
qed

lemma toFixed_minus_0004: "toFixed h 2 (StringToNumber ''-0.004'') = ''-0.00''"
  by code_simp

lemma minus_0004_truthy: "truthy (Num (StringToNumber ''-0.004''))"
  by code_simp

lemma minus_0004_negative: "\<not> fge (StringToNumber ''-0.004'') (Fin 0)"
  by code_simp

lemma minus_000_not_negative: "fge (StringToNumber ''-0.00'') (Fin 0)"
  by code_simp

text \<open>The two price changes of the specification: -1.25 and 0.50 get the text and the
  class that it gives.\<close>

lemma priceChange_examples:
  "toFixed h 2 (Fin (- 5 / 4)) = ''-1.25''" "\<not> fge (StringToNumber ''-1.25'') (Fin 0)"
  "toFixed h 2 (Fin (1 / 2)) = ''0.50''" "fge (StringToNumber ''0.50'') (Fin 0)"
  by code_simp+

text \<open>
  Claim C6, at the price change -0.004. The value is negative, and the claim gives it
  the class negative. \<open>updateMarketSummary\<close> compares the text that \<open>toFixed\<close> made of
  it, -0.00, which converts to -0 and is not below 0: the element shows -0.00% with
  the class positive.
\<close>

theorem priceChange_minus_0004_positive:
  "\<not> fge (StringToNumber ''-0.004'') (Fin 0) \<and>
   updateMarketSummary h
     (Obj [(''success'', Bool True), (''priceChange'', Num (StringToNumber ''-0.004''))]) el =
     (None, el\<lparr>priceChange_textContent := Str ''-0.00%'',
               priceChange_className := ''value positive''\<rparr>)"
  by (simp add: updateMarketSummary_def seq_def update_lastPrice_def update_priceChange_def
      update_volume_def update_signal_def update_llmAnalysis_def get_def truthy_def
      call_toFixed_def minus_0004_truthy [unfolded truthy_def, simplified]
      minus_0004_negative toFixed_minus_0004 minus_000_not_negative)

section \<open>The market summary\<close>

text \<open>Each statement of \<open>updateMarketSummary\<close> writes its own attributes only, writes
  nothing for a falsy member, and throws or not whatever the page shows.\<close>

lemma fst_seq: "fst (seq r f) = (case fst r of None \<Rightarrow> fst (f (snd r)) | Some e \<Rightarrow> Some e)"
  by (cases r) (simp add: seq_def split: option.splits)

lemma snd_seq: "snd (seq r f) = (case fst r of None \<Rightarrow> snd (f (snd r)) | Some e \<Rightarrow> snd r)"
  by (cases r) (simp add: seq_def split: option.splits)

lemma seq_keeps:
  assumes "\<And>s. g (snd (f s)) = g s"
  shows "g (snd (seq r f)) = g (snd r)"
  using assms by (simp add: snd_seq split: option.splits)

lemma update_lastPrice_error: "fst (update_lastPrice h d el) = fst (update_lastPrice h d el')"
  by (simp add: update_lastPrice_def split: sum.splits)

lemma update_priceChange_error:
  "fst (update_priceChange h d el) = fst (update_priceChange h d el')"
  by (simp add: update_priceChange_def split: sum.splits)

lemma update_volume_error: "fst (update_volume h d el) = fst (update_volume h d el')"
  by (simp add: update_volume_def split: sum.splits)

lemma update_signal_error: "fst (update_signal d el) = fst (update_signal d el')"
  by (simp add: update_signal_def Let_def)

lemma update_llmAnalysis_error: "fst (update_llmAnalysis d el) = fst (update_llmAnalysis d el')"
  by (simp add: update_llmAnalysis_def Let_def)

lemma update_lastPrice_falsy:
  "\<not> truthy (get d ''lastPrice'') \<Longrightarrow> update_lastPrice h d el = (None, el)"
  by (simp add: update_lastPrice_def)

lemma update_priceChange_falsy:
  "\<not> truthy (get d ''priceChange'') \<Longrightarrow> update_priceChange h d el = (None, el)"
  by (simp add: update_priceChange_def)

lemma update_volume_falsy:
  "\<not> truthy (get d ''volume'') \<Longrightarrow> update_volume h d el = (None, el)"
  by (simp add: update_volume_def)

lemma update_signal_falsy:
  "\<not> truthy (get d ''signal'') \<Longrightarrow> update_signal d el = (None, el)"
  by (simp add: update_signal_def)

lemma update_llmAnalysis_falsy:
  "\<not> truthy (get d ''llmAnalysis'') \<Longrightarrow> update_llmAnalysis d el = (None, el)"
  by (simp add: update_llmAnalysis_def)

lemma update_lastPrice_frame:
  "mainChart_plot (snd (update_lastPrice h d el)) = mainChart_plot el"
  "timeframeSelect_value (snd (update_lastPrice h d el)) = timeframeSelect_value el"
  "rsiToggle_checked (snd (update_lastPrice h d el)) = rsiToggle_checked el"
  "macdToggle_checked (snd (update_lastPrice h d el)) = macdToggle_checked el"
  "signalsToggle_checked (snd (update_lastPrice h d el)) = signalsToggle_checked el"
  "priceChange_textContent (snd (update_lastPrice h d el)) = priceChange_textContent el"
  "priceChange_className (snd (update_lastPrice h d el)) = priceChange_className el"
  "volume_textContent (snd (update_lastPrice h d el)) = volume_textContent el"
  "signalMessage_textContent (snd (update_lastPrice h d el)) = signalMessage_textContent el"
  "signalDetails_innerHTML (snd (update_lastPrice h d el)) = signalDetails_innerHTML el"
  "llmMessage_textContent (snd (update_lastPrice h d el)) = llmMessage_textContent el"
  "llmDetails_innerHTML (snd (update_lastPrice h d el)) = llmDetails_innerHTML el"
  "elements.more (snd (update_lastPrice h d el)) = elements.more el"
  by (simp_all add: update_lastPrice_def split: sum.splits)

lemma update_priceChange_frame:
  "mainChart_plot (snd (update_priceChange h d el)) = mainChart_plot el"
  "timeframeSelect_value (snd (update_priceChange h d el)) = timeframeSelect_value el"
  "rsiToggle_checked (snd (update_priceChange h d el)) = rsiToggle_checked el"
  "macdToggle_checked (snd (update_priceChange h d el)) = macdToggle_checked el"
  "signalsToggle_checked (snd (update_priceChange h d el)) = signalsToggle_checked el"
  "lastPrice_textContent (snd (update_priceChange h d el)) = lastPrice_textContent el"
  "volume_textContent (snd (update_priceChange h d el)) = volume_textContent el"
  "signalMessage_textContent (snd (update_priceChange h d el)) = signalMessage_textContent el"
  "signalDetails_innerHTML (snd (update_priceChange h d el)) = signalDetails_innerHTML el"
  "llmMessage_textContent (snd (update_priceChange h d el)) = llmMessage_textContent el"
  "llmDetails_innerHTML (snd (update_priceChange h d el)) = llmDetails_innerHTML el"
  "elements.more (snd (update_priceChange h d el)) = elements.more el"
  by (simp_all add: update_priceChange_def split: sum.splits)

lemma update_volume_frame:
  "mainChart_plot (snd (update_volume h d el)) = mainChart_plot el"
  "timeframeSelect_value (snd (update_volume h d el)) = timeframeSelect_value el"
  "rsiToggle_checked (snd (update_volume h d el)) = rsiToggle_checked el"
  "macdToggle_checked (snd (update_volume h d el)) = macdToggle_checked el"
  "signalsToggle_checked (snd (update_volume h d el)) = signalsToggle_checked el"
  "lastPrice_textContent (snd (update_volume h d el)) = lastPrice_textContent el"
  "priceChange_textContent (snd (update_volume h d el)) = priceChange_textContent el"
  "priceChange_className (snd (update_volume h d el)) = priceChange_className el"
  "signalMessage_textContent (snd (update_volume h d el)) = signalMessage_textContent el"
  "signalDetails_innerHTML (snd (update_volume h d el)) = signalDetails_innerHTML el"
  "llmMessage_textContent (snd (update_volume h d el)) = llmMessage_textContent el"
  "llmDetails_innerHTML (snd (update_volume h d el)) = llmDetails_innerHTML el"
  "elements.more (snd (update_volume h d el)) = elements.more el"
  by (simp_all add: update_volume_def split: sum.splits)

lemma update_signal_frame:
  "mainChart_plot (snd (update_signal d el)) = mainChart_plot el"
  "timeframeSelect_value (snd (update_signal d el)) = timeframeSelect_value el"
  "rsiToggle_checked (snd (update_signal d el)) = rsiToggle_checked el"
  "macdToggle_checked (snd (update_signal d el)) = macdToggle_checked el"
  "signalsToggle_checked (snd (update_signal d el)) = signalsToggle_checked el"
  "lastPrice_textContent (snd (update_signal d el)) = lastPrice_textContent el"
  "priceChange_textContent (snd (update_signal d el)) = priceChange_textContent el"
  "priceChange_className (snd (update_signal d el)) = priceChange_className el"
  "volume_textContent (snd (update_signal d el)) = volume_textContent el"
  "llmMessage_textContent (snd (update_signal d el)) = llmMessage_textContent el"
  "llmDetails_innerHTML (snd (update_signal d el)) = llmDetails_innerHTML el"
  "elements.more (snd (update_signal d el)) = elements.more el"
  by (simp_all add: update_signal_def Let_def)

lemma update_llmAnalysis_frame:
  "mainChart_plot (snd (update_llmAnalysis d el)) = mainChart_plot el"
  "timeframeSelect_value (snd (update_llmAnalysis d el)) = timeframeSelect_value el"
  "rsiToggle_checked (snd (update_llmAnalysis d el)) = rsiToggle_checked el"
  "macdToggle_checked (snd (update_llmAnalysis d el)) = macdToggle_checked el"
  "signalsToggle_checked (snd (update_llmAnalysis d el)) = signalsToggle_checked el"
  "lastPrice_textContent (snd (update_llmAnalysis d el)) = lastPrice_textContent el"
  "priceChange_textContent (snd (update_llmAnalysis d el)) = priceChange_textContent el"
  "priceChange_className (snd (update_llmAnalysis d el)) = priceChange_className el"
  "volume_textContent (snd (update_llmAnalysis d el)) = volume_textContent el"
  "signalMessage_textContent (snd (update_llmAnalysis d el)) = signalMessage_textContent el"
  "signalDetails_innerHTML (snd (update_llmAnalysis d el)) = signalDetails_innerHTML el"
  "elements.more (snd (update_llmAnalysis d el)) = elements.more el"
  by (simp_all add: update_llmAnalysis_def Let_def)

lemmas update_frames = update_lastPrice_frame update_priceChange_frame update_volume_frame
  update_signal_frame update_llmAnalysis_frame

lemmas update_falsy = update_lastPrice_falsy update_priceChange_falsy update_volume_falsy
  update_signal_falsy update_llmAnalysis_falsy

lemma summary_untouched:
  "mainChart_plot (snd (updateMarketSummary h d el)) = mainChart_plot el"
  "timeframeSelect_value (snd (updateMarketSummary h d el)) = timeframeSelect_value el"
  "rsiToggle_checked (snd (updateMarketSummary h d el)) = rsiToggle_checked el"
  "macdToggle_checked (snd (updateMarketSummary h d el)) = macdToggle_checked el"
  "signalsToggle_checked (snd (updateMarketSummary h d el)) = signalsToggle_checked el"
  "elements.more (snd (updateMarketSummary h d el)) = elements.more el"
  by (simp_all add: updateMarketSummary_def seq_keeps update_frames)

lemma summary_lastPrice_falsy:
  "\<not> truthy (get d ''lastPrice'') \<Longrightarrow>
   lastPrice_textContent (snd (updateMarketSummary h d el)) = lastPrice_textContent el"
  by (simp add: updateMarketSummary_def seq_keeps update_frames update_falsy)

lemma summary_priceChange_falsy:
  "\<not> truthy (get d ''priceChange'') \<Longrightarrow>
   priceChange_textContent (snd (updateMarketSummary h d el)) = priceChange_textContent el \<and>
   priceChange_className (snd (updateMarketSummary h d el)) = priceChange_className el"
  by (simp add: updateMarketSummary_def seq_keeps update_frames update_falsy)

lemma summary_volume_falsy:
  "\<not> truthy (get d ''volume'') \<Longrightarrow>
   volume_textContent (snd (updateMarketSummary h d el)) = volume_textContent el"
  by (simp add: updateMarketSummary_def seq_keeps update_frames update_falsy)

lemma summary_signal_falsy:
  "\<not> truthy (get d ''signal'') \<Longrightarrow>
   signalMessage_textContent (snd (updateMarketSummary h d el)) = signalMessage_textContent el \<and>
   signalDetails_innerHTML (snd (updateMarketSummary h d el)) = signalDetails_innerHTML el"
  by (simp add: updateMarketSummary_def seq_keeps update_frames update_falsy)

lemma summary_llmAnalysis_falsy:
  "\<not> truthy (get d ''llmAnalysis'') \<Longrightarrow>
   llmMessage_textContent (snd (updateMarketSummary h d el)) = llmMessage_textContent el \<and>
   llmDetails_innerHTML (snd (updateMarketSummary h d el)) = llmDetails_innerHTML el"
  by (simp add: updateMarketSummary_def seq_keeps update_frames update_falsy)

lemma get_absent: "k \<notin> fst ` set kvs \<Longrightarrow> get (Obj kvs) k = Undefined"
  by (auto simp: get_def split: option.splits dest!: map_of_SomeD intro: rev_image_eqI)

text \<open>
  Claim C10. \<open>updateMarketSummary\<close> writes a display field only for a truthy payload
  member: when \<open>lastPrice\<close>, \<open>priceChange\<close>, \<open>volume\<close>, \<open>signal\<close> or \<open>llmAnalysis\<close> is
  falsy, the text of its element (and the class of the price change, the details of
  the panel) is what it was before, whatever else the call writes or throws. An absent
  member, \<open>null\<close> and the number 0 are falsy, so a price change of 0 and a volume of 0
  are never displayed.
\<close>

theorem updateMarketSummary_keeps_falsy:
  "(\<not> truthy (get d ''lastPrice'') \<longrightarrow>
      lastPrice_textContent (snd (updateMarketSummary h d el)) = lastPrice_textContent el) \<and>
   (\<not> truthy (get d ''priceChange'') \<longrightarrow>
      priceChange_textContent (snd (updateMarketSummary h d el)) = priceChange_textContent el \<and>
      priceChange_className (snd (updateMarketSummary h d el)) = priceChange_className el) \<and>
   (\<not> truthy (get d ''volume'') \<longrightarrow>
      volume_textContent (snd (updateMarketSummary h d el)) = volume_textContent el) \<and>
   (\<not> truthy (get d ''signal'') \<longrightarrow>
      signalMessage_textContent (snd (updateMarketSummary h d el)) = signalMessage_textContent el \<and>
      signalDetails_innerHTML (snd (updateMarketSummary h d el)) = signalDetails_innerHTML el) \<and>
   (\<not> truthy (get d ''llmAnalysis'') \<longrightarrow>
      llmMessage_textContent (snd (updateMarketSummary h d el)) = llmMessage_textContent el \<and>
      llmDetails_innerHTML (snd (updateMarketSummary h d el)) = llmDetails_innerHTML el) \<and>
   (\<forall>kvs k. k \<notin> fst ` set kvs \<longrightarrow> \<not> truthy (get (Obj kvs) k)) \<and>
   \<not> truthy Null \<and> \<not> truthy (Num (Fin 0)) \<and> \<not> truthy (Num NegZero)"
proof -
  have "\<not> truthy (get (Obj kvs) k)" if "k \<notin> fst ` set kvs" for kvs k
    using that by (simp add: get_absent truthy_def)
  moreover have "\<not> truthy Null" "\<not> truthy (Num (Fin 0))" "\<not> truthy (Num NegZero)"
    by (simp_all add: truthy_def is_zero_def)
  ultimately show ?thesis
    using summary_lastPrice_falsy [of d h el] summary_priceChange_falsy [of d h el]
      summary_volume_falsy [of d h el] summary_signal_falsy [of d h el]
      summary_llmAnalysis_falsy [of d h el]
    by blast
qed

theorem updateMarketSummary_keeps_falsy_witness:
  "\<not> truthy (get payload_flat ''lastPrice'') \<and> \<not> truthy (get payload_flat ''priceChange'') \<and>
   \<not> truthy (get payload_flat ''volume'') \<and> \<not> truthy (get payload_flat ''signal'') \<and>
   \<not> truthy (get payload_flat ''llmAnalysis'') \<and>
   ''signal'' \<notin> fst ` set [(''success'', Bool True)] \<and>
   snd (updateMarketSummary host0 payload_flat template) = template"
proof -
  have f: "\<not> truthy (get payload_flat ''lastPrice'')" "\<not> truthy (get payload_flat ''priceChange'')"
    "\<not> truthy (get payload_flat ''volume'')" "\<not> truthy (get payload_flat ''signal'')"
    "\<not> truthy (get payload_flat ''llmAnalysis'')"
    by (simp_all add: payload_flat_def get_def truthy_def is_zero_def)
  have "snd (updateMarketSummary host0 payload_flat template) = template"
    using f updateMarketSummary_keeps_falsy [of payload_flat host0 template]
    by (intro elements.equality) (simp_all add: summary_untouched)
  with f show ?thesis by simp
qed


section \<open>The market page\<close>

lemma item_last: "xs \<noteq> [] \<Longrightarrow> item xs (int (length xs) - 1) = Some (last xs)"
  by (cases xs rule: rev_cases) (simp_all add: item_def nat_diff_distrib')

lemma item_before_last:
  "2 \<le> length xs \<Longrightarrow> item xs (int (length xs) - 2) = Some (xs ! (length xs - 2))"
  by (simp add: item_def nat_diff_distrib')

text \<open>
  Claim C9. For an array of at least two candles \<open>updateMarketInfo\<close> shows the last close
  to two decimals and the change \<open>((last.close - previous.close) / previous.close) * 100\<close>
  to two decimals with a percent sign, coloured by \<open>change >= 0\<close>; for an array of fewer
  than two candles it throws a TypeError.
\<close>

theorem updateMarketInfo_needs_two_candles:
  "(2 \<le> length data \<longrightarrow>
      updateMarketInfo h data p =
        (let l = last data; v = data ! (length data - 2);
             change = fmul (fdiv (fsub (close l) (close v)) (close v)) (Fin 100)
         in (None, p\<lparr>lastPrice_text := toFixed h 2 (close l),
                     priceChange_text := toFixed h 2 change @ ''%'',
                     priceChange_color := (if fge change (Fin 0) then ''var(--success-color)''
                                           else ''var(--error-color)''),
                     volume_text := Number_toLocaleString h (volume l)\<rparr>))) \<and>
   (length data < 2 \<longrightarrow> fst (updateMarketInfo h data p) = Some TypeError)"
proof (intro conjI impI)
  assume two: "2 \<le> length data"
  then have "data \<noteq> []" by auto
  then show "updateMarketInfo h data p =
        (let l = last data; v = data ! (length data - 2);
             change = fmul (fdiv (fsub (close l) (close v)) (close v)) (Fin 100)
         in (None, p\<lparr>lastPrice_text := toFixed h 2 (close l),
                     priceChange_text := toFixed h 2 change @ ''%'',
                     priceChange_color := (if fge change (Fin 0) then ''var(--success-color)''
                                           else ''var(--error-color)''),
                     volume_text := Number_toLocaleString h (volume l)\<rparr>))"
    using two by (simp add: updateMarketInfo_def item_last item_before_last Let_def)
next
  assume short: "length data < 2"
  show "fst (updateMarketInfo h data p) = Some TypeError"
  proof (cases data)
    case Nil
    then show ?thesis by (simp add: updateMarketInfo_def item_def)
  next
    case (Cons c cs)
    with short have "cs = []" by simp
    with Cons show ?thesis by (simp add: updateMarketInfo_def item_def)
  qed
qed

lemma change_10_11: "fmul (fdiv (fsub (Fin 11) (Fin 10)) (Fin 10)) (Fin 100) = Fin 10"
  by code_simp

lemma toFixed_11: "toFixed h 2 (Fin 11) = ''11.00''"
  by code_simp

lemma toFixed_10: "toFixed h 2 (Fin 10) = ''10.00''"
  by code_simp

lemma fge_10_0: "fge (Fin 10) (Fin 0)"
  by code_simp

theorem updateMarketInfo_needs_two_candles_witness:
  "2 \<le> length [candle1, candle2] \<and>
   updateMarketInfo host0 [candle1, candle2] market_page0 =
     (None, market_page0\<lparr>lastPrice_text := ''11.00'', priceChange_text := ''10.00%'',
        priceChange_color := ''var(--success-color)'', volume_text := ''5''\<rparr>) \<and>
   length [candle1] < 2 \<and>
   updateMarketInfo host0 [candle1] market_page0 =
     (Some TypeError, market_page0\<lparr>lastPrice_text := ''10.00''\<rparr>) \<and>
   fst (updateMarketInfo host0 [] market_page0) = Some TypeError"
proof -
  have a: "updateMarketInfo host0 [candle1, candle2] market_page0 =
     (None, market_page0\<lparr>lastPrice_text := ''11.00'', priceChange_text := ''10.00%'',
        priceChange_color := ''var(--success-color)'', volume_text := ''5''\<rparr>)"
    using updateMarketInfo_needs_two_candles [of "[candle1, candle2]" host0 market_page0]
    by (simp add: Let_def candle1_def candle2_def change_10_11 toFixed_10
        toFixed_11 fge_10_0 host0_def)
  have b: "fst (updateMarketInfo host0 [candle1] market_page0) = Some TypeError"
    using updateMarketInfo_needs_two_candles [of "[candle1]" host0 market_page0] by simp
  have c: "snd (updateMarketInfo host0 [candle1] market_page0) =
      market_page0\<lparr>lastPrice_text := ''10.00''\<rparr>"
    by (simp add: updateMarketInfo_def item_def candle1_def toFixed_10)
  have d: "fst (updateMarketInfo host0 [] market_page0) = Some TypeError"
    using updateMarketInfo_needs_two_candles [of "[]" host0 market_page0] by simp
  from a b c d show ?thesis by (simp add: prod_eq_iff)
qed

section \<open>Requests, timers and alerts of the dashboard\<close>

lemma console_error_fields:
  "elements (console_error m e s) = elements s" "alerts (console_error m e s) = alerts s"
  "timers (console_error m e s) = timers s" "updateInterval (console_error m e s) = updateInterval s"
  "next_timer (console_error m e s) = next_timer s" "timeframe (console_error m e s) = timeframe s"
  "mainChart (console_error m e s) = mainChart s"
  "lastUpdateTime (console_error m e s) = lastUpdateTime s"
  "requests (console_error m e s) = requests s"
  "plotly_calls (console_error m e s) = plotly_calls s"
  "console (console_error m e s) = console s @ [(m, e)]"
  by (simp_all add: console_error_def)

lemma showError_fields:
  "elements (showError m s) = elements s" "alerts (showError m s) = alerts s @ [m]"
  "timers (showError m s) = timers s" "updateInterval (showError m s) = updateInterval s"
  "next_timer (showError m s) = next_timer s" "timeframe (showError m s) = timeframe s"
  "mainChart (showError m s) = mainChart s"
  "lastUpdateTime (showError m s) = lastUpdateTime s"
  "requests (showError m s) = requests s"
  "plotly_calls (showError m s) = plotly_calls s"
  "console (showError m s) = console s @ [(m, None)]"
  by (simp_all add: showError_def console_error_def Let_def)

lemma finish_render_fields:
  "timers (snd (finish_render h d s)) = timers s"
  "updateInterval (snd (finish_render h d s)) = updateInterval s"
  "next_timer (snd (finish_render h d s)) = next_timer s"
  "timeframe (snd (finish_render h d s)) = timeframe s"
  "mainChart (snd (finish_render h d s)) = mainChart s"
  "requests (snd (finish_render h d s)) = requests s"
  "plotly_calls (snd (finish_render h d s)) = plotly_calls s"
  "alerts (snd (finish_render h d s)) = alerts s"
  "console (snd (finish_render h d s)) = console s"
  by (simp_all add: finish_render_def split: prod.splits option.splits)

lemma fetchChartData_try_fields:
  "timers (snd (fetchChartData_try h resp po s)) = timers s"
  "updateInterval (snd (fetchChartData_try h resp po s)) = updateInterval s"
  "next_timer (snd (fetchChartData_try h resp po s)) = next_timer s"
  "timeframe (snd (fetchChartData_try h resp po s)) = timeframe s"
  "requests (snd (fetchChartData_try h resp po s)) = requests s"
  "alerts (snd (fetchChartData_try h resp po s)) = alerts s"
  "console (snd (fetchChartData_try h resp po s)) = console s"
  by (simp_all add: fetchChartData_try_def finish_render_fields
      split: response.splits option.splits plot_outcome.splits)

lemma fetchChartData_resume_fields:
  "timers (fetchChartData_resume h resp po s) = timers s"
  "updateInterval (fetchChartData_resume h resp po s) = updateInterval s"
  "next_timer (fetchChartData_resume h resp po s) = next_timer s"
  "timeframe (fetchChartData_resume h resp po s) = timeframe s"
  "requests (fetchChartData_resume h resp po s) = requests s"
proof -
  obtain e s' where r: "fetchChartData_try h resp po s = (e, s')"
    by (cases "fetchChartData_try h resp po s")
  have s': "s' = snd (fetchChartData_try h resp po s)" using r by simp
  show "timers (fetchChartData_resume h resp po s) = timers s"
    "updateInterval (fetchChartData_resume h resp po s) = updateInterval s"
    "next_timer (fetchChartData_resume h resp po s) = next_timer s"
    "timeframe (fetchChartData_resume h resp po s) = timeframe s"
    "requests (fetchChartData_resume h resp po s) = requests s"
    unfolding fetchChartData_resume_def r
    by (cases e; simp add: showError_fields console_error_fields s' fetchChartData_try_fields)+
qed

lemma fetchChartData_fields:
  "timers (fetchChartData h resp po s) = timers s"
  "updateInterval (fetchChartData h resp po s) = updateInterval s"
  "next_timer (fetchChartData h resp po s) = next_timer s"
  "timeframe (fetchChartData h resp po s) = timeframe s"
  "requests (fetchChartData h resp po s) =
     requests s @ [GET (''/api/chart-data?timeframe='' @ timeframe s)]"
  by (simp_all add: fetchChartData_def fetchChartData_resume_fields fetchChartData_send_def)


lemma fetch_failure_toggle:
  assumes "resp = NetworkFailure \<or> resp = NotJSON \<or>
     (\<exists>d. resp = JSON d \<and> \<not> truthy (get d ''success''))"
  shows "\<exists>e. toggle_request resp = Some e"
  using assms by (auto simp: toggle_request_def)


lemma startRealTimeUpdates_first:
  assumes "updateInterval s = None" "timers s = []" "next_timer s = 1" "timeframe s = ''1h''"
  shows "timers (startRealTimeUpdates s) = [(1, 60000)]"
    and "updateInterval (startRealTimeUpdates s) = Some 1"
  using assms by (simp_all add: startRealTimeUpdates_def intervals_def Let_def)

lemma plotly_calls_try:
  "length (plotly_calls (snd (fetchChartData_try h resp po s))) \<le> Suc (length (plotly_calls s))"
  by (simp add: fetchChartData_try_def finish_render_fields
      split: response.splits option.splits plot_outcome.splits)

lemma plotly_calls_resume:
  "length (plotly_calls (fetchChartData_resume h resp po s)) \<le> Suc (length (plotly_calls s))"
proof -
  obtain e s' where r: "fetchChartData_try h resp po s = (e, s')"
    by (cases "fetchChartData_try h resp po s")
  have "length (plotly_calls s') \<le> Suc (length (plotly_calls s))"
    using plotly_calls_try [of h resp po s] r by simp
  then show ?thesis
    unfolding fetchChartData_resume_def r
    by (cases e) (simp_all add: showError_fields console_error_fields)
qed

text \<open>
  Claim C2, at the selection of 1m after the constructor has run. The claim has the
  timer restarted with the period of the new timeframe, 1000 ms. The change handler
  sets the timeframe and fetches the chart; it does not call \<open>startRealTimeUpdates\<close>, so
  the timer that \<open>initialize\<close> started for 1h stays the only one, with 60000 ms.
\<close>

theorem timeframe_change_keeps_old_timer:
  "timers (timeframeSelect_change h ''1m'' resp' po' (initialize h resp po constructed)) =
     [(1, 60000)] \<and>
   updateInterval (timeframeSelect_change h ''1m'' resp' po' (initialize h resp po constructed)) =
     Some 1 \<and>
   timeframe (timeframeSelect_change h ''1m'' resp' po' (initialize h resp po constructed)) =
     ''1m'' \<and>
   map_of intervals ''1m'' = Some 1000"
proof -
  let ?s = "fetchChartData h resp po constructed"
  have pre: "updateInterval ?s = None" "timers ?s = []" "next_timer ?s = 1" "timeframe ?s = ''1h''"
    by (simp_all add: fetchChartData_fields constructed_def)
  have "timers (initialize h resp po constructed) = [(1, 60000)]"
    "updateInterval (initialize h resp po constructed) = Some 1"
    unfolding initialize_def using startRealTimeUpdates_first [OF pre] by simp_all
  then show ?thesis
    by (simp add: timeframeSelect_change_def fetchChartData_fields intervals_def)
qed

section \<open>Rendering a response\<close>

lemma summary_error_independent:
  "fst (updateMarketSummary h d el) = fst (updateMarketSummary h d el')"
proof -
  obtain e1 where e1: "\<And>x. fst (update_lastPrice h d x) = e1"
    using update_lastPrice_error by blast
  obtain e2 where e2: "\<And>x. fst (update_priceChange h d x) = e2"
    using update_priceChange_error by blast
  obtain e3 where e3: "\<And>x. fst (update_volume h d x) = e3"
    using update_volume_error by blast
  obtain e4 where e4: "\<And>x. fst (update_signal d x) = e4"
    using update_signal_error by blast
  obtain e5 where e5: "\<And>x. fst (update_llmAnalysis d x) = e5"
    using update_llmAnalysis_error by blast
  show ?thesis
    by (simp add: updateMarketSummary_def fst_seq e1 e2 e3 e4 e5 split: option.splits)
qed

lemma summary_steps:
  assumes "fst (updateMarketSummary h d el) = None"
  shows "fst (update_lastPrice h d x) = None" "fst (update_priceChange h d x) = None"
    "fst (update_volume h d x) = None" "fst (update_signal d x) = None"
    "fst (update_llmAnalysis d x) = None"
proof -
  obtain e1 where e1: "\<And>x. fst (update_lastPrice h d x) = e1"
    using update_lastPrice_error by blast
  obtain e2 where e2: "\<And>x. fst (update_priceChange h d x) = e2"
    using update_priceChange_error by blast
  obtain e3 where e3: "\<And>x. fst (update_volume h d x) = e3"
    using update_volume_error by blast
  obtain e4 where e4: "\<And>x. fst (update_signal d x) = e4"
    using update_signal_error by blast
  obtain e5 where e5: "\<And>x. fst (update_llmAnalysis d x) = e5"
    using update_llmAnalysis_error by blast
  from assms have "e1 = None \<and> e2 = None \<and> e3 = None \<and> e4 = None \<and> e5 = None"
    by (simp add: updateMarketSummary_def fst_seq e1 e2 e3 e4 e5 split: option.splits)
  then show "fst (update_lastPrice h d x) = None" "fst (update_priceChange h d x) = None"
    "fst (update_volume h d x) = None" "fst (update_signal d x) = None"
    "fst (update_llmAnalysis d x) = None"
    by (simp_all add: e1 e2 e3 e4 e5)
qed

lemma update_lastPrice_truthy:
  "truthy (get d ''lastPrice'') \<Longrightarrow> fst (update_lastPrice h d el) = None \<Longrightarrow>
   lastPrice_textContent (snd (update_lastPrice h d el)) =
     lastPrice_textContent (snd (update_lastPrice h d el'))"
  by (simp add: update_lastPrice_def split: sum.splits)

lemma update_priceChange_truthy:
  "truthy (get d ''priceChange'') \<Longrightarrow> fst (update_priceChange h d el) = None \<Longrightarrow>
   priceChange_textContent (snd (update_priceChange h d el)) =
     priceChange_textContent (snd (update_priceChange h d el')) \<and>
   priceChange_className (snd (update_priceChange h d el)) =
     priceChange_className (snd (update_priceChange h d el'))"
  by (simp add: update_priceChange_def split: sum.splits)

lemma update_volume_truthy:
  "truthy (get d ''volume'') \<Longrightarrow> fst (update_volume h d el) = None \<Longrightarrow>
   volume_textContent (snd (update_volume h d el)) =
     volume_textContent (snd (update_volume h d el'))"
  by (simp add: update_volume_def split: sum.splits)

lemma update_signal_truthy:
  "truthy (get d ''signal'') \<Longrightarrow> fst (update_signal d el) = None \<Longrightarrow>
   signalMessage_textContent (snd (update_signal d el)) =
     signalMessage_textContent (snd (update_signal d el')) \<and>
   signalDetails_innerHTML (snd (update_signal d el)) =
     signalDetails_innerHTML (snd (update_signal d el'))"
  by (simp add: update_signal_def Let_def split: if_splits)

lemma update_llmAnalysis_truthy:
  "truthy (get d ''llmAnalysis'') \<Longrightarrow> fst (update_llmAnalysis d el) = None \<Longrightarrow>
   llmMessage_textContent (snd (update_llmAnalysis d el)) =
     llmMessage_textContent (snd (update_llmAnalysis d el')) \<and>
   llmDetails_innerHTML (snd (update_llmAnalysis d el)) =
     llmDetails_innerHTML (snd (update_llmAnalysis d el'))"
  by (simp add: update_llmAnalysis_def Let_def split: if_splits)

text \<open>A member that is truthy decides what its element shows after a summary that
  does not throw, whatever the element showed before.\<close>

lemma summary_truthy:
  assumes ok: "fst (updateMarketSummary h d el) = None"
  shows "truthy (get d ''lastPrice'') \<Longrightarrow>
      lastPrice_textContent (snd (updateMarketSummary h d el)) =
        lastPrice_textContent (snd (updateMarketSummary h d el'))"
    and "truthy (get d ''priceChange'') \<Longrightarrow>
      priceChange_textContent (snd (updateMarketSummary h d el)) =
        priceChange_textContent (snd (updateMarketSummary h d el'))"
    and "truthy (get d ''priceChange'') \<Longrightarrow>
      priceChange_className (snd (updateMarketSummary h d el)) =
        priceChange_className (snd (updateMarketSummary h d el'))"
    and "truthy (get d ''volume'') \<Longrightarrow>
      volume_textContent (snd (updateMarketSummary h d el)) =
        volume_textContent (snd (updateMarketSummary h d el'))"
    and "truthy (get d ''signal'') \<Longrightarrow>
      signalMessage_textContent (snd (updateMarketSummary h d el)) =
        signalMessage_textContent (snd (updateMarketSummary h d el'))"
    and "truthy (get d ''signal'') \<Longrightarrow>
      signalDetails_innerHTML (snd (updateMarketSummary h d el)) =
        signalDetails_innerHTML (snd (updateMarketSummary h d el'))"
    and "truthy (get d ''llmAnalysis'') \<Longrightarrow>
      llmMessage_textContent (snd (updateMarketSummary h d el)) =
        llmMessage_textContent (snd (updateMarketSummary h d el'))"
    and "truthy (get d ''llmAnalysis'') \<Longrightarrow>
      llmDetails_innerHTML (snd (updateMarketSummary h d el)) =
        llmDetails_innerHTML (snd (updateMarketSummary h d el'))"
proof -
  note n = summary_steps [OF ok]
  let ?a = "snd (update_lastPrice h d el)" and ?a' = "snd (update_lastPrice h d el')"
  let ?b = "snd (update_priceChange h d ?a)" and ?b' = "snd (update_priceChange h d ?a')"
  let ?c = "snd (update_volume h d ?b)" and ?c' = "snd (update_volume h d ?b')"
  let ?e = "snd (update_signal d ?c)" and ?e' = "snd (update_signal d ?c')"
  have r: "snd (updateMarketSummary h d el) = snd (update_llmAnalysis d ?e)"
    "snd (updateMarketSummary h d el') = snd (update_llmAnalysis d ?e')"
    by (simp_all add: updateMarketSummary_def snd_seq fst_seq n)
  show "lastPrice_textContent (snd (updateMarketSummary h d el)) =
        lastPrice_textContent (snd (updateMarketSummary h d el'))"
    if "truthy (get d ''lastPrice'')"
    using update_lastPrice_truthy [OF that n(1), of el el']
    by (simp add: r update_frames)
  show "priceChange_textContent (snd (updateMarketSummary h d el)) =
        priceChange_textContent (snd (updateMarketSummary h d el'))"
    if "truthy (get d ''priceChange'')"
    using update_priceChange_truthy [OF that n(2), of ?a ?a']
    by (simp add: r update_frames)
  show "priceChange_className (snd (updateMarketSummary h d el)) =
        priceChange_className (snd (updateMarketSummary h d el'))"
    if "truthy (get d ''priceChange'')"
    using update_priceChange_truthy [OF that n(2), of ?a ?a']
    by (simp add: r update_frames)
  show "volume_textContent (snd (updateMarketSummary h d el)) =
        volume_textContent (snd (updateMarketSummary h d el'))"
    if "truthy (get d ''volume'')"
    using update_volume_truthy [OF that n(3), of ?b ?b']
    by (simp add: r update_frames)
  show "signalMessage_textContent (snd (updateMarketSummary h d el)) =
        signalMessage_textContent (snd (updateMarketSummary h d el'))"
    if "truthy (get d ''signal'')"
    using update_signal_truthy [OF that n(4), of ?c ?c']
    by (simp add: r update_frames)
  show "signalDetails_innerHTML (snd (updateMarketSummary h d el)) =
        signalDetails_innerHTML (snd (updateMarketSummary h d el'))"
    if "truthy (get d ''signal'')"
    using update_signal_truthy [OF that n(4), of ?c ?c']
    by (simp add: r update_frames)
  show "llmMessage_textContent (snd (updateMarketSummary h d el)) =
        llmMessage_textContent (snd (updateMarketSummary h d el'))"
    if "truthy (get d ''llmAnalysis'')"
    using update_llmAnalysis_truthy [OF that n(5), of ?e ?e']
    by (simp add: r)
  show "llmDetails_innerHTML (snd (updateMarketSummary h d el)) =
        llmDetails_innerHTML (snd (updateMarketSummary h d el'))"
    if "truthy (get d ''llmAnalysis'')"
    using update_llmAnalysis_truthy [OF that n(5), of ?e ?e']
    by (simp add: r)
qed

lemma summary_error_react:
  "fst (updateMarketSummary h d (Plotly_react a b el)) = fst (updateMarketSummary h d el)"
  by (rule summary_error_independent)

lemma summary_error_newPlot:
  "fst (updateMarketSummary h d (Plotly_newPlot a b c el)) = fst (updateMarketSummary h d el)"
  by (rule summary_error_independent)

lemma finish_render_fst:
  "fst (finish_render h d s) =
     (case fst (updateMarketSummary h d (elements s)) of
        Some e \<Rightarrow> Some e
      | None \<Rightarrow> if stringifiable (get d ''lastUpdate'') then None else Some TypeError)"
  by (simp add: finish_render_def split: prod.splits option.splits)

lemma finish_render_elements:
  "elements (snd (finish_render h d s)) = snd (updateMarketSummary h d (elements s))"
  by (simp add: finish_render_def split: prod.splits option.splits)

lemma finish_render_time:
  "lastUpdateTime (snd (finish_render h d s)) =
     (if fst (finish_render h d s) = None then Some (get d ''lastUpdate'')
      else lastUpdateTime s)"
  by (simp add: finish_render_def split: prod.splits option.splits)

text \<open>The state in which the chart library has drawn the chart \<open>c\<close>: with
  \<open>Plotly.newPlot\<close> when there is no handle yet, with \<open>Plotly.react\<close> otherwise.\<close>

lemma resume_resolved:
  assumes "\<not> nullish d" "truthy (get d ''success'')" "JSON_parse h (get d ''data'') = Some c"
    "\<not> nullish c"
  shows "fetchChartData_try h (JSON d) Resolved s =
     finish_render h d
       (if mainChart s = None
        then s\<lparr>mainChart := Some GraphDiv,
               elements := Plotly_newPlot (get c ''data'') (get c ''layout'') chart_config
                 (elements s),
               plotly_calls := plotly_calls s @ [NewPlot]\<rparr>
        else s\<lparr>elements := Plotly_react (get c ''data'') (get c ''layout'') (elements s),
               plotly_calls := plotly_calls s @ [React]\<rparr>)"
  using assms by (simp add: fetchChartData_try_def)

lemma resume_ok_payload:
  assumes "fst (fetchChartData_try h (JSON d) Resolved s) = None"
  shows "\<not> nullish d \<and> truthy (get d ''success'') \<and>
     (\<exists>c. JSON_parse h (get d ''data'') = Some c \<and> \<not> nullish c) \<and>
     (\<forall>el. fst (updateMarketSummary h d el) = None) \<and> stringifiable (get d ''lastUpdate'')"
proof -
  from assms have a: "\<not> nullish d" "truthy (get d ''success'')"
    by (auto simp: fetchChartData_try_def split: if_splits)
  from assms a obtain c where c: "JSON_parse h (get d ''data'') = Some c" "\<not> nullish c"
    by (auto simp: fetchChartData_try_def split: if_splits option.splits)
  from assms have f: "fst (updateMarketSummary h d (elements s)) = None \<and>
      stringifiable (get d ''lastUpdate'')"
    by (simp add: resume_resolved [OF a c] finish_render_fst summary_error_react
        summary_error_newPlot split: if_splits option.splits)
  then have "fst (updateMarketSummary h d el) = None" for el
    using summary_error_independent [of h d el "elements s"] by simp
  with a c f show ?thesis by blast
qed

lemma resume_ok_fields:
  assumes "\<not> nullish d" "truthy (get d ''success'')" "JSON_parse h (get d ''data'') = Some c"
    "\<not> nullish c" "\<And>el. fst (updateMarketSummary h d el) = None"
    "stringifiable (get d ''lastUpdate'')"
  shows "elements (fetchChartData_resume h (JSON d) Resolved s) =
       snd (updateMarketSummary h d
         (if mainChart s = None
          then Plotly_newPlot (get c ''data'') (get c ''layout'') chart_config (elements s)
          else Plotly_react (get c ''data'') (get c ''layout'') (elements s)))"
    and "mainChart (fetchChartData_resume h (JSON d) Resolved s) = Some GraphDiv"
    and "lastUpdateTime (fetchChartData_resume h (JSON d) Resolved s) = Some (get d ''lastUpdate'')"
    and "plotly_calls (fetchChartData_resume h (JSON d) Resolved s) =
       plotly_calls s @ [if mainChart s = None then NewPlot else React]"
    and "console (fetchChartData_resume h (JSON d) Resolved s) = console s"
    and "alerts (fetchChartData_resume h (JSON d) Resolved s) = alerts s"
proof -
  let ?s1 = "if mainChart s = None
        then s\<lparr>mainChart := Some GraphDiv,
               elements := Plotly_newPlot (get c ''data'') (get c ''layout'') chart_config
                 (elements s),
               plotly_calls := plotly_calls s @ [NewPlot]\<rparr>
        else s\<lparr>elements := Plotly_react (get c ''data'') (get c ''layout'') (elements s),
               plotly_calls := plotly_calls s @ [React]\<rparr>"
  have t: "fetchChartData_try h (JSON d) Resolved s = finish_render h d ?s1"
    by (rule resume_resolved [OF assms(1-4)])
  have f: "fst (finish_render h d ?s1) = None"
    by (simp add: finish_render_fst assms(5,6))
  have r: "fetchChartData_resume h (JSON d) Resolved s = snd (finish_render h d ?s1)"
    unfolding fetchChartData_resume_def t using f
    by (cases "finish_render h d ?s1") simp
  show "elements (fetchChartData_resume h (JSON d) Resolved s) =
       snd (updateMarketSummary h d
         (if mainChart s = None
          then Plotly_newPlot (get c ''data'') (get c ''layout'') chart_config (elements s)
          else Plotly_react (get c ''data'') (get c ''layout'') (elements s)))"
    by (simp add: r finish_render_elements)
  show "mainChart (fetchChartData_resume h (JSON d) Resolved s) = Some GraphDiv"
    by (cases "mainChart s"; cases "the (mainChart s)") (simp_all add: r finish_render_fields)
  show "lastUpdateTime (fetchChartData_resume h (JSON d) Resolved s) = Some (get d ''lastUpdate'')"
    by (simp add: r finish_render_time f)
  show "plotly_calls (fetchChartData_resume h (JSON d) Resolved s) =
       plotly_calls s @ [if mainChart s = None then NewPlot else React]"
    by (simp add: r finish_render_fields)
  show "console (fetchChartData_resume h (JSON d) Resolved s) = console s"
    by (simp add: r finish_render_fields)
  show "alerts (fetchChartData_resume h (JSON d) Resolved s) = alerts s"
    by (simp add: r finish_render_fields)
qed

lemma send_fields:
  "elements (fetchChartData_send s) = elements s" "mainChart (fetchChartData_send s) = mainChart s"
  "plotly_calls (fetchChartData_send s) = plotly_calls s"
  "lastUpdateTime (fetchChartData_send s) = lastUpdateTime s"
  "console (fetchChartData_send s) = console s" "alerts (fetchChartData_send s) = alerts s"
  by (simp_all add: fetchChartData_send_def)

lemma render_ok_fields:
  assumes "\<not> nullish d" "truthy (get d ''success'')" "JSON_parse h (get d ''data'') = Some c"
    "\<not> nullish c" "\<And>el. fst (updateMarketSummary h d el) = None"
    "stringifiable (get d ''lastUpdate'')"
  shows "elements (fetchChartData h (JSON d) Resolved s) =
       snd (updateMarketSummary h d
         (if mainChart s = None
          then Plotly_newPlot (get c ''data'') (get c ''layout'') chart_config (elements s)
          else Plotly_react (get c ''data'') (get c ''layout'') (elements s)))"
    and "mainChart (fetchChartData h (JSON d) Resolved s) = Some GraphDiv"
    and "lastUpdateTime (fetchChartData h (JSON d) Resolved s) = Some (get d ''lastUpdate'')"
    and "plotly_calls (fetchChartData h (JSON d) Resolved s) =
       plotly_calls s @ [if mainChart s = None then NewPlot else React]"
  by (simp_all add: fetchChartData_def resume_ok_fields [OF assms] send_fields)

subsection \<open>The example payloads\<close>

lemma chart_texts_differ: "chart_text ''2'' \<noteq> chart_text ''1''"
  by (simp add: chart_text_def)

lemma host0_parse:
  "JSON_parse host0 (Str (chart_text ''1'')) = Some (chart_value 1)"
  "JSON_parse host0 (Str (chart_text ''2'')) = Some (chart_value 2)"
  by (simp_all add: host0_def chart_texts_differ)

lemma chart_value_members:
  "\<not> nullish (chart_value r)"
  "get (chart_value r) ''data'' = Arr [Obj [(''y'', Arr [Num (Fin r)])]]"
  "get (chart_value r) ''layout'' = Obj []"
  by (simp_all add: chart_value_def nullish_def get_def)

lemma payload_A_members:
  "\<not> nullish payload_A" "truthy (get payload_A ''success'')"
  "get payload_A ''data'' = Str (chart_text ''1'')"
  "get payload_A ''lastUpdate'' = Str time1"
  "get payload_A ''lastPrice'' = Num (Fin 100)"
  "get payload_A ''priceChange'' = Num (Fin (1 / 2))"
  "get payload_A ''volume'' = Num (Fin 1500000)"
  "get payload_A ''signal'' = Obj [(''message'', Str ''BUY'')]"
  "get payload_A ''llmAnalysis'' = Undefined"
  "stringifiable (get payload_A ''lastUpdate'')"
  by (simp_all add: payload_A_def nullish_def get_def truthy_def)

lemma payload_B_members:
  "\<not> nullish payload_B" "truthy (get payload_B ''success'')"
  "get payload_B ''data'' = Str (chart_text ''2'')"
  "get payload_B ''lastUpdate'' = Str time2"
  "get payload_B ''lastPrice'' = Num (Fin 101)"
  "get payload_B ''priceChange'' = Num (Fin (- 5 / 4))"
  "get payload_B ''volume'' = Num (Fin 2300)"
  "get payload_B ''signal'' = Undefined"
  "get payload_B ''llmAnalysis'' = Undefined"
  "stringifiable (get payload_B ''lastUpdate'')"
  by (simp_all add: payload_B_def nullish_def get_def truthy_def)


lemma signal_BUY_members:
  "get (Obj [(''message'', Str ''BUY'')]) ''message'' = Str ''BUY''"
  "get (Obj [(''message'', Str ''BUY'')]) ''details'' = Undefined"
  by (simp_all add: get_def)

lemma payload_A_summary: "fst (updateMarketSummary h payload_A el) = None"
  by (simp add: updateMarketSummary_def fst_seq snd_seq update_lastPrice_def
      update_priceChange_def update_volume_def update_signal_def update_llmAnalysis_def
      payload_A_members signal_BUY_members truthy_def is_zero_def call_toFixed_def
      formatVolume_1500000 Let_def)

lemma payload_B_summary: "fst (updateMarketSummary h payload_B el) = None"
  by (simp add: updateMarketSummary_def fst_seq snd_seq update_lastPrice_def
      update_priceChange_def update_volume_def update_signal_def update_llmAnalysis_def
      payload_B_members truthy_def is_zero_def call_toFixed_def formatVolume_2300 Let_def)


lemmas resume_A = resume_ok_fields [of payload_A host0, OF payload_A_members(1,2)
    host0_parse(1) [folded payload_A_members(3)] chart_value_members(1) payload_A_summary
    payload_A_members(10)]

lemmas resume_B = resume_ok_fields [of payload_B host0, OF payload_B_members(1,2)
    host0_parse(2) [folded payload_B_members(3)] chart_value_members(1) payload_B_summary
    payload_B_members(10)]

lemmas render_A = render_ok_fields [of payload_A host0, OF payload_A_members(1,2)
    host0_parse(1) [folded payload_A_members(3)] chart_value_members(1) payload_A_summary
    payload_A_members(10)]

lemmas render_B = render_ok_fields [of payload_B host0, OF payload_B_members(1,2)
    host0_parse(2) [folded payload_B_members(3)] chart_value_members(1) payload_B_summary
    payload_B_members(10)]

lemma payload_A_signal:
  "signalMessage_textContent (snd (updateMarketSummary h payload_A el)) = Str ''BUY''"
proof -
  have "signalMessage_textContent (snd (update_signal payload_A x)) = Str ''BUY''" for x
    by (simp add: update_signal_def payload_A_members signal_BUY_members Let_def truthy_def)
  then show ?thesis
    by (simp add: updateMarketSummary_def snd_seq fst_seq summary_steps [OF payload_A_summary]
        update_frames)
qed

lemma rendered_A_fields:
  "mainChart rendered_A = Some GraphDiv"
  "lastUpdateTime rendered_A = Some (Str time1)"
  "mainChart_plot (elements rendered_A) =
     Some \<lparr>traces = Arr [Obj [(''y'', Arr [Num (Fin 1)])]], layout = Obj [],
       config = chart_config\<rparr>"
  "signalMessage_textContent (elements rendered_A) = Str ''BUY''"
proof -
  show "mainChart rendered_A = Some GraphDiv"
    by (simp add: rendered_A_def render_A)
  show "lastUpdateTime rendered_A = Some (Str time1)"
    by (simp add: rendered_A_def render_A payload_A_members)
  show "mainChart_plot (elements rendered_A) =
     Some \<lparr>traces = Arr [Obj [(''y'', Arr [Num (Fin 1)])]], layout = Obj [],
       config = chart_config\<rparr>"
    by (simp add: rendered_A_def render_A constructed_def summary_untouched
        Plotly_newPlot_def chart_value_members)
  show "signalMessage_textContent (elements rendered_A) = Str ''BUY''"
    by (simp add: rendered_A_def render_A payload_A_signal)
qed

section \<open>Rendering twice, and out of order\<close>

text \<open>
  Claim C7, as stated, at the answer \<open>payload_A\<close> (with a signal) followed by
  \<open>payload_B\<close> (without one): after both renders the signal panel still shows BUY, after
  the second alone it shows the text of the template.
\<close>

theorem render_twice_keeps_old_signal:
  "signalMessage_textContent (elements
      (fetchChartData host0 (JSON payload_B) Resolved
        (fetchChartData host0 (JSON payload_A) Resolved constructed))) = Str ''BUY'' \<and>
   signalMessage_textContent (elements
      (fetchChartData host0 (JSON payload_B) Resolved constructed)) = Str ''No signal available''"
proof -
  have "signalMessage_textContent (elements (fetchChartData host0 (JSON payload_B) Resolved s)) =
      signalMessage_textContent (elements s)" for s
    using summary_signal_falsy [of payload_B host0]
    by (simp add: render_B payload_B_members truthy_def Plotly_newPlot_def Plotly_react_def)
  then show ?thesis
    using rendered_A_fields(4) by (simp add: rendered_A_def constructed_def template_def)
qed

text \<open>
  Claim C7, amended. Let \<open>P1\<close> and \<open>P2\<close> be payloads that render without an error, and
  let \<open>P2\<close> carry every summary member that \<open>P1\<close> carries. Then rendering \<open>P1\<close> and then
  \<open>P2\<close> from a page without chart gives the elements, the chart handle and the time
  stamp that rendering \<open>P2\<close> alone gives; the first render calls \<open>Plotly.newPlot\<close> and
  the second \<open>Plotly.react\<close>.
\<close>

theorem render_twice_converges:
  assumes ok1: "fst (fetchChartData_try h (JSON P1) Resolved (fetchChartData_send s)) = None"
    and ok2: "fst (fetchChartData_try h (JSON P2) Resolved (fetchChartData_send s)) = None"
    and keep: "\<forall>k \<in> set [''lastPrice'', ''priceChange'', ''volume'', ''signal'', ''llmAnalysis''].
        truthy (get P1 k) \<longrightarrow> truthy (get P2 k)"
    and fresh: "mainChart s = None"
  shows "elements (fetchChartData h (JSON P2) Resolved (fetchChartData h (JSON P1) Resolved s)) =
       elements (fetchChartData h (JSON P2) Resolved s) \<and>
     mainChart (fetchChartData h (JSON P2) Resolved (fetchChartData h (JSON P1) Resolved s)) =
       mainChart (fetchChartData h (JSON P2) Resolved s) \<and>
     lastUpdateTime (fetchChartData h (JSON P2) Resolved (fetchChartData h (JSON P1) Resolved s)) =
       lastUpdateTime (fetchChartData h (JSON P2) Resolved s) \<and>
     plotly_calls (fetchChartData h (JSON P2) Resolved (fetchChartData h (JSON P1) Resolved s)) =
       plotly_calls s @ [NewPlot, React] \<and>
     plotly_calls (fetchChartData h (JSON P2) Resolved s) = plotly_calls s @ [NewPlot]"
proof -
  from resume_ok_payload [OF ok1] obtain c1 where
    p1: "\<not> nullish P1" "truthy (get P1 ''success'')" "JSON_parse h (get P1 ''data'') = Some c1"
      "\<not> nullish c1" "\<And>el. fst (updateMarketSummary h P1 el) = None"
      "stringifiable (get P1 ''lastUpdate'')"
    by blast
  from resume_ok_payload [OF ok2] obtain c2 where
    p2: "\<not> nullish P2" "truthy (get P2 ''success'')" "JSON_parse h (get P2 ''data'') = Some c2"
      "\<not> nullish c2" "\<And>el. fst (updateMarketSummary h P2 el) = None"
      "stringifiable (get P2 ''lastUpdate'')"
    by blast
  note r1 = render_ok_fields [OF p1] and r2 = render_ok_fields [OF p2]
  let ?A = "fetchChartData h (JSON P1) Resolved s"
  let ?N1 = "Plotly_newPlot (get c1 ''data'') (get c1 ''layout'') chart_config (elements s)"
  let ?X = "snd (updateMarketSummary h P1 ?N1)"
  let ?R2 = "Plotly_react (get c2 ''data'') (get c2 ''layout'') ?X"
  let ?N2 = "Plotly_newPlot (get c2 ''data'') (get c2 ''layout'') chart_config (elements s)"
  let ?L = "snd (updateMarketSummary h P2 ?R2)"
  let ?R = "snd (updateMarketSummary h P2 ?N2)"
  have A: "elements ?A = ?X" "mainChart ?A = Some GraphDiv"
    "plotly_calls ?A = plotly_calls s @ [NewPlot]"
    by (simp_all add: r1 fresh)
  have L: "elements (fetchChartData h (JSON P2) Resolved ?A) = ?L"
    by (simp add: r2 A)
  have R: "elements (fetchChartData h (JSON P2) Resolved s) = ?R"
    by (simp add: r2 fresh)
  have k: "truthy (get P1 ''lastPrice'') \<longrightarrow> truthy (get P2 ''lastPrice'')"
    "truthy (get P1 ''priceChange'') \<longrightarrow> truthy (get P2 ''priceChange'')"
    "truthy (get P1 ''volume'') \<longrightarrow> truthy (get P2 ''volume'')"
    "truthy (get P1 ''signal'') \<longrightarrow> truthy (get P2 ''signal'')"
    "truthy (get P1 ''llmAnalysis'') \<longrightarrow> truthy (get P2 ''llmAnalysis'')"
    using keep by simp_all
  note t = summary_truthy [OF p2(5), of ?R2 ?N2]
  have "?L = ?R"
  proof (rule elements.equality)
    show "mainChart_plot ?L = mainChart_plot ?R"
      by (simp add: summary_untouched Plotly_react_def Plotly_newPlot_def)
    show "timeframeSelect_value ?L = timeframeSelect_value ?R"
      by (simp add: summary_untouched Plotly_react_def Plotly_newPlot_def)
    show "rsiToggle_checked ?L = rsiToggle_checked ?R"
      by (simp add: summary_untouched Plotly_react_def Plotly_newPlot_def)
    show "macdToggle_checked ?L = macdToggle_checked ?R"
      by (simp add: summary_untouched Plotly_react_def Plotly_newPlot_def)
    show "signalsToggle_checked ?L = signalsToggle_checked ?R"
      by (simp add: summary_untouched Plotly_react_def Plotly_newPlot_def)
    show "elements.more ?L = elements.more ?R"
      by (simp add: summary_untouched Plotly_react_def Plotly_newPlot_def)
    show "lastPrice_textContent ?L = lastPrice_textContent ?R"
    proof (cases "truthy (get P2 ''lastPrice'')")
      case True
      then show ?thesis by (rule t)
    next
      case False
      with k show ?thesis
        by (simp add: summary_lastPrice_falsy Plotly_react_def Plotly_newPlot_def)
    qed
    show "priceChange_textContent ?L = priceChange_textContent ?R"
    proof (cases "truthy (get P2 ''priceChange'')")
      case True
      then show ?thesis by (rule t)
    next
      case False
      with k show ?thesis
        by (simp add: summary_priceChange_falsy Plotly_react_def Plotly_newPlot_def)
    qed
    show "priceChange_className ?L = priceChange_className ?R"
    proof (cases "truthy (get P2 ''priceChange'')")
      case True
      then show ?thesis by (rule t)
    next
      case False
      with k show ?thesis
        by (simp add: summary_priceChange_falsy Plotly_react_def Plotly_newPlot_def)
    qed
    show "volume_textContent ?L = volume_textContent ?R"
    proof (cases "truthy (get P2 ''volume'')")
      case True
      then show ?thesis by (rule t)
    next
      case False
      with k show ?thesis
        by (simp add: summary_volume_falsy Plotly_react_def Plotly_newPlot_def)
    qed
    show "signalMessage_textContent ?L = signalMessage_textContent ?R"
    proof (cases "truthy (get P2 ''signal'')")
      case True
      then show ?thesis by (rule t)
    next
      case False
      with k show ?thesis
        by (simp add: summary_signal_falsy Plotly_react_def Plotly_newPlot_def)
    qed
    show "signalDetails_innerHTML ?L = signalDetails_innerHTML ?R"
    proof (cases "truthy (get P2 ''signal'')")
      case True
      then show ?thesis by (rule t)
    next
      case False
      with k show ?thesis
        by (simp add: summary_signal_falsy Plotly_react_def Plotly_newPlot_def)
    qed
    show "llmMessage_textContent ?L = llmMessage_textContent ?R"
    proof (cases "truthy (get P2 ''llmAnalysis'')")
      case True
      then show ?thesis by (rule t)
    next
      case False
      with k show ?thesis
        by (simp add: summary_llmAnalysis_falsy Plotly_react_def Plotly_newPlot_def)
    qed
    show "llmDetails_innerHTML ?L = llmDetails_innerHTML ?R"
    proof (cases "truthy (get P2 ''llmAnalysis'')")
      case True
      then show ?thesis by (rule t)
    next
      case False
      with k show ?thesis
        by (simp add: summary_llmAnalysis_falsy Plotly_react_def Plotly_newPlot_def)
    qed
  qed
  with L R have "elements (fetchChartData h (JSON P2) Resolved ?A) =
      elements (fetchChartData h (JSON P2) Resolved s)"
    by simp
  moreover have "mainChart (fetchChartData h (JSON P2) Resolved ?A) =
      mainChart (fetchChartData h (JSON P2) Resolved s)"
    by (simp add: r2)
  moreover have "lastUpdateTime (fetchChartData h (JSON P2) Resolved ?A) =
      lastUpdateTime (fetchChartData h (JSON P2) Resolved s)"
    by (simp add: r2)
  moreover have "plotly_calls (fetchChartData h (JSON P2) Resolved ?A) =
      plotly_calls s @ [NewPlot, React]"
    by (simp add: r2 A)
  moreover have "plotly_calls (fetchChartData h (JSON P2) Resolved s) = plotly_calls s @ [NewPlot]"
    by (simp add: r2 fresh)
  ultimately show ?thesis by blast
qed

lemma try_A_ok: "fst (fetchChartData_try host0 (JSON payload_A) Resolved s) = None"
  by (simp add: resume_resolved [OF payload_A_members(1,2)
        host0_parse(1) [folded payload_A_members(3)] chart_value_members(1)]
      finish_render_fst payload_A_summary payload_A_members)

lemma try_B_ok: "fst (fetchChartData_try host0 (JSON payload_B) Resolved s) = None"
  by (simp add: resume_resolved [OF payload_B_members(1,2)
        host0_parse(2) [folded payload_B_members(3)] chart_value_members(1)]
      finish_render_fst payload_B_summary payload_B_members)

theorem render_twice_converges_witness:
  "elements (fetchChartData host0 (JSON payload_A) Resolved
      (fetchChartData host0 (JSON payload_B) Resolved constructed)) =
     elements (fetchChartData host0 (JSON payload_A) Resolved constructed) \<and>
   plotly_calls (fetchChartData host0 (JSON payload_A) Resolved
      (fetchChartData host0 (JSON payload_B) Resolved constructed)) = [NewPlot, React]"
proof -
  have keep: "\<forall>k \<in> set [''lastPrice'', ''priceChange'', ''volume'', ''signal'', ''llmAnalysis''].
      truthy (get payload_B k) \<longrightarrow> truthy (get payload_A k)"
    by (simp add: payload_A_members payload_B_members truthy_def is_zero_def)
  have fresh: "mainChart constructed = None" "plotly_calls constructed = []"
    by (simp_all add: constructed_def)
  show ?thesis
    using render_twice_converges [of host0 payload_B constructed payload_A,
        OF try_B_ok try_A_ok keep fresh(1)] fresh(2)
    by simp
qed

text \<open>
  Claim C4, as stated, at two requests that overtake each other: the request of
  \<open>initialize\<close> for 1h and the request of the change handler for 5m are under way, the
  answer for 5m is rendered, and then the answer to the older request arrives. It is
  rendered too: the chart changes from the newer payload to the older one while the
  selected timeframe is 5m.
\<close>

theorem stale_response_overwrites:
  "requests both_sent =
     [GET ''/api/chart-data?timeframe=1h'', GET ''/api/chart-data?timeframe=5m''] \<and>
   mainChart_plot (elements newer_rendered) =
     Some \<lparr>traces = Arr [Obj [(''y'', Arr [Num (Fin 2)])]], layout = Obj [],
       config = chart_config\<rparr> \<and>
   mainChart_plot (elements older_arrived) =
     Some \<lparr>traces = Arr [Obj [(''y'', Arr [Num (Fin 1)])]], layout = Obj [],
       config = chart_config\<rparr> \<and>
   mainChart_plot (elements older_arrived) \<noteq> mainChart_plot (elements newer_rendered) \<and>
   timeframe older_arrived = ''5m''"
proof -
  have sent: "requests both_sent =
     [GET ''/api/chart-data?timeframe=1h'', GET ''/api/chart-data?timeframe=5m'']"
    "mainChart both_sent = None" "timeframe both_sent = ''5m''"
    by (simp_all add: both_sent_def fetchChartData_send_def constructed_def)
  have newer: "mainChart_plot (elements newer_rendered) =
     Some \<lparr>traces = Arr [Obj [(''y'', Arr [Num (Fin 2)])]], layout = Obj [],
       config = chart_config\<rparr>"
    by (simp add: newer_rendered_def resume_B sent summary_untouched Plotly_newPlot_def
        chart_value_members)
  have older: "mainChart_plot (elements older_arrived) =
     Some \<lparr>traces = Arr [Obj [(''y'', Arr [Num (Fin 1)])]], layout = Obj [],
       config = chart_config\<rparr>"
    using newer
    by (simp add: older_arrived_def resume_A resume_B(2) [of both_sent, folded newer_rendered_def]
        summary_untouched Plotly_react_def chart_value_members)
  have tf: "timeframe older_arrived = ''5m''"
    by (simp add: older_arrived_def newer_rendered_def fetchChartData_resume_fields sent)
  from sent(1) newer older tf show ?thesis by simp
qed

section \<open>Background polls\<close>

lemma update_resolved:
  assumes "lastUpdateTime s = Some t" "Date_toISOString h t = Some iso_text"
    "\<not> nullish d" "truthy (get d ''success'')" "JSON_parse h (get d ''data'') = Some c"
    "\<not> nullish c"
  shows "fetchUpdate_try h (JSON d) Resolved s =
     finish_render h d
       (s\<lparr>requests := requests s @
            [POST ''/api/update''
               (Obj [(''timeframe'', Str (timeframe s)), (''lastUpdate'', Str iso_text)])],
          elements := Plotly_react (get c ''data'') (get c ''layout'') (elements s),
          plotly_calls := plotly_calls s @ [React]\<rparr>)"
  using assms by (simp add: fetchUpdate_try_def Let_def)

lemma host0_dates: "Date_toISOString host0 (Str time1) = Some time1"
  by (simp add: host0_def)





lemma fetchUpdate_succeeded:
  assumes "fst (fetchUpdate_try h resp po s) = None"
  shows "fetchUpdate h resp po s = snd (fetchUpdate_try h resp po s)"
  using assms by (cases "fetchUpdate_try h resp po s") (simp add: fetchUpdate_def)


lemma payload_failure_members:
  "\<not> nullish payload_failure" "\<not> truthy (get payload_failure ''success'')"
  "get payload_failure ''error'' = Str ''no data''"
  "get payload_failure ''lastPrice'' = Str ''101.5''"
  by (simp_all add: payload_failure_def nullish_def get_def truthy_def)


section \<open>Responses in the order of arrival\<close>

lemma update_ok:
  assumes "fst (fetchUpdate_try h (JSON d) Resolved s) = None"
  shows "\<exists>c. JSON_parse h (get d ''data'') = Some c \<and>
     elements (snd (fetchUpdate_try h (JSON d) Resolved s)) =
       snd (updateMarketSummary h d
         (Plotly_react (get c ''data'') (get c ''layout'') (elements s))) \<and>
     lastUpdateTime (snd (fetchUpdate_try h (JSON d) Resolved s)) = Some (get d ''lastUpdate'')"
proof -
  from assms obtain t where t: "lastUpdateTime s = Some t"
    by (cases "lastUpdateTime s") (auto simp: fetchUpdate_try_def)
  from assms t obtain i where i: "Date_toISOString h t = Some i"
    by (cases "Date_toISOString h t") (auto simp: fetchUpdate_try_def)
  from assms t i have a: "\<not> nullish d" "truthy (get d ''success'')"
    by (auto simp: fetchUpdate_try_def Let_def split: if_splits)
  from assms t i a obtain c where c: "JSON_parse h (get d ''data'') = Some c" "\<not> nullish c"
    by (auto simp: fetchUpdate_try_def Let_def split: if_splits option.splits)
  note r = update_resolved [OF t i a c]
  from assms have "fst (finish_render h d
       (s\<lparr>requests := requests s @
            [POST ''/api/update''
               (Obj [(''timeframe'', Str (timeframe s)), (''lastUpdate'', Str i)])],
          elements := Plotly_react (get c ''data'') (get c ''layout'') (elements s),
          plotly_calls := plotly_calls s @ [React]\<rparr>)) = None"
    by (simp add: r)
  then have "elements (snd (fetchUpdate_try h (JSON d) Resolved s)) =
       snd (updateMarketSummary h d
         (Plotly_react (get c ''data'') (get c ''layout'') (elements s)))"
    "lastUpdateTime (snd (fetchUpdate_try h (JSON d) Resolved s)) = Some (get d ''lastUpdate'')"
    by (simp_all add: r finish_render_elements finish_render_time)
  with c(1) show ?thesis by blast
qed

text \<open>
  Claim C4, amended. The responses carry no request id and none is discarded: a response
  to a chart request or to a poll that renders without an error replaces the traces
  and the layout of the chart by its own and sets the time stamp to its own, whatever
  the page showed when it arrived, the render of a newer request included.
\<close>

theorem response_rendered_on_arrival:
  "(fst (fetchChartData_try h (JSON d) Resolved s) = None \<longrightarrow>
      (\<exists>c. JSON_parse h (get d ''data'') = Some c \<and>
         map_option traces
             (mainChart_plot (elements (fetchChartData_resume h (JSON d) Resolved s))) =
           Some (get c ''data'') \<and>
         map_option layout
             (mainChart_plot (elements (fetchChartData_resume h (JSON d) Resolved s))) =
           Some (get c ''layout'') \<and>
         lastUpdateTime (fetchChartData_resume h (JSON d) Resolved s) =
           Some (get d ''lastUpdate''))) \<and>
   (fst (fetchUpdate_try h (JSON d) Resolved s) = None \<longrightarrow>
      (\<exists>c. JSON_parse h (get d ''data'') = Some c \<and>
         map_option traces (mainChart_plot (elements (fetchUpdate h (JSON d) Resolved s))) =
           Some (get c ''data'') \<and>
         map_option layout (mainChart_plot (elements (fetchUpdate h (JSON d) Resolved s))) =
           Some (get c ''layout'') \<and>
         lastUpdateTime (fetchUpdate h (JSON d) Resolved s) = Some (get d ''lastUpdate'')))"
proof (intro conjI impI)
  assume ok: "fst (fetchChartData_try h (JSON d) Resolved s) = None"
  from resume_ok_payload [OF ok] obtain c where
    p: "\<not> nullish d" "truthy (get d ''success'')" "JSON_parse h (get d ''data'') = Some c"
      "\<not> nullish c" "\<And>el. fst (updateMarketSummary h d el) = None"
      "stringifiable (get d ''lastUpdate'')"
    by blast
  note r = resume_ok_fields [OF p, of s]
  have "map_option traces (mainChart_plot (elements (fetchChartData_resume h (JSON d) Resolved s))) =
       Some (get c ''data'')"
    "map_option layout (mainChart_plot (elements (fetchChartData_resume h (JSON d) Resolved s))) =
       Some (get c ''layout'')"
    by (simp_all add: r summary_untouched Plotly_newPlot_def Plotly_react_def)
  with p(3) r(3)
  show "\<exists>c. JSON_parse h (get d ''data'') = Some c \<and>
         map_option traces
             (mainChart_plot (elements (fetchChartData_resume h (JSON d) Resolved s))) =
           Some (get c ''data'') \<and>
         map_option layout
             (mainChart_plot (elements (fetchChartData_resume h (JSON d) Resolved s))) =
           Some (get c ''layout'') \<and>
         lastUpdateTime (fetchChartData_resume h (JSON d) Resolved s) =
           Some (get d ''lastUpdate'')"
    by blast
next
  assume ok: "fst (fetchUpdate_try h (JSON d) Resolved s) = None"
  from update_ok [OF ok] obtain c where
    c: "JSON_parse h (get d ''data'') = Some c"
      "elements (snd (fetchUpdate_try h (JSON d) Resolved s)) =
         snd (updateMarketSummary h d
           (Plotly_react (get c ''data'') (get c ''layout'') (elements s)))"
      "lastUpdateTime (snd (fetchUpdate_try h (JSON d) Resolved s)) = Some (get d ''lastUpdate'')"
    by blast
  have "map_option traces (mainChart_plot (elements (fetchUpdate h (JSON d) Resolved s))) =
       Some (get c ''data'')"
    "map_option layout (mainChart_plot (elements (fetchUpdate h (JSON d) Resolved s))) =
       Some (get c ''layout'')"
    "lastUpdateTime (fetchUpdate h (JSON d) Resolved s) = Some (get d ''lastUpdate'')"
    by (simp_all add: fetchUpdate_succeeded [OF ok] c summary_untouched Plotly_react_def)
  with c(1)
  show "\<exists>c. JSON_parse h (get d ''data'') = Some c \<and>
         map_option traces (mainChart_plot (elements (fetchUpdate h (JSON d) Resolved s))) =
           Some (get c ''data'') \<and>
         map_option layout (mainChart_plot (elements (fetchUpdate h (JSON d) Resolved s))) =
           Some (get c ''layout'') \<and>
         lastUpdateTime (fetchUpdate h (JSON d) Resolved s) = Some (get d ''lastUpdate'')"
    by blast
qed

lemma poll_B_ok: "fst (fetchUpdate_try host0 (JSON payload_B) Resolved rendered_A) = None"
  by (simp add: update_resolved [OF rendered_A_fields(2) host0_dates payload_B_members(1,2)
        host0_parse(2) [folded payload_B_members(3)] chart_value_members(1)]
      finish_render_fst payload_B_summary payload_B_members)

theorem response_rendered_on_arrival_witness:
  "map_option traces (mainChart_plot (elements older_arrived)) =
     Some (Arr [Obj [(''y'', Arr [Num (Fin 1)])]]) \<and>
   lastUpdateTime older_arrived = Some (Str time1) \<and>
   map_option traces
       (mainChart_plot (elements (fetchUpdate host0 (JSON payload_B) Resolved rendered_A))) =
     Some (Arr [Obj [(''y'', Arr [Num (Fin 2)])]]) \<and>
   lastUpdateTime (fetchUpdate host0 (JSON payload_B) Resolved rendered_A) = Some (Str time2)"
proof -
  from response_rendered_on_arrival [of host0 payload_A newer_rendered] try_A_ok
  have "map_option traces (mainChart_plot (elements older_arrived)) =
     Some (Arr [Obj [(''y'', Arr [Num (Fin 1)])]]) \<and>
   lastUpdateTime older_arrived = Some (Str time1)"
    by (simp add: older_arrived_def host0_parse payload_A_members chart_value_members)
  moreover from response_rendered_on_arrival [of host0 payload_B rendered_A] poll_B_ok
  have "map_option traces
       (mainChart_plot (elements (fetchUpdate host0 (JSON payload_B) Resolved rendered_A))) =
     Some (Arr [Obj [(''y'', Arr [Num (Fin 2)])]]) \<and>
   lastUpdateTime (fetchUpdate host0 (JSON payload_B) Resolved rendered_A) = Some (Str time2)"
    by (simp add: host0_parse payload_B_members chart_value_members)
  ultimately show ?thesis by simp
qed

section \<open>Toggles\<close>

text \<open>
  Claim C3, as stated, at a click on the RSI toggle of the page as the constructor
  leaves it, answered with \<open>success: false\<close>. The toggle was checked before the attempt;
  the browser unchecks it and raises \<open>change\<close>, \<open>toggleIndicator\<close> alerts, and the toggle
  stays unchecked.
\<close>

theorem failed_toggle_stays_flipped:
  "rsiToggle_checked (elements constructed) \<and>
   \<not> rsiToggle_checked (elements
       (rsiToggle_change host0 (JSON payload_failure) NetworkFailure Resolved constructed)) \<and>
   alerts (rsiToggle_change host0 (JSON payload_failure) NetworkFailure Resolved constructed) =
     [''Failed to toggle rsi'']"
  by (simp add: rsiToggle_change_def toggleIndicator_def toggle_request_def
      payload_failure_members new_Error_def Let_def showError_fields console_error_fields
      constructed_def template_def)

text \<open>
  Claim C3, amended. When the request of \<open>toggleIndicator\<close> fails (the fetch is rejected,
  the body is not JSON, or \<open>success\<close> is falsy), the function writes no element and the
  user gets an alert. After the change handler the toggle therefore shows the state
  that the click gave it, the opposite of its state before the click, and every other
  element is as before.
\<close>

theorem failed_toggle_writes_no_element:
  assumes "resp = NetworkFailure \<or> resp = NotJSON \<or>
     (\<exists>d. resp = JSON d \<and> \<not> truthy (get d ''success''))"
  shows "elements (toggleIndicator h indicator resp chart_resp po s) = elements s \<and>
     alerts (toggleIndicator h indicator resp chart_resp po s) =
       alerts s @ [''Failed to toggle '' @ indicator] \<and>
     elements (rsiToggle_change h resp chart_resp po s) =
       (elements s)\<lparr>rsiToggle_checked := \<not> rsiToggle_checked (elements s)\<rparr> \<and>
     alerts (rsiToggle_change h resp chart_resp po s) = alerts s @ [''Failed to toggle rsi''] \<and>
     elements (macdToggle_change h resp chart_resp po s) =
       (elements s)\<lparr>macdToggle_checked := \<not> macdToggle_checked (elements s)\<rparr> \<and>
     alerts (macdToggle_change h resp chart_resp po s) = alerts s @ [''Failed to toggle macd'']"
proof -
  from fetch_failure_toggle [OF assms] obtain e where "toggle_request resp = Some e" ..
  then show ?thesis
    by (simp add: rsiToggle_change_def macdToggle_change_def toggleIndicator_def Let_def
        showError_fields console_error_fields)
qed

theorem failed_toggle_writes_no_element_witness:
  "elements (rsiToggle_change host0 (JSON payload_failure) NetworkFailure Resolved constructed) =
     template\<lparr>rsiToggle_checked := False\<rparr> \<and>
   alerts (rsiToggle_change host0 (JSON payload_failure) NetworkFailure Resolved constructed) =
     [''Failed to toggle rsi'']"
proof -
  have "\<exists>d. JSON payload_failure = JSON d \<and> \<not> truthy (get d ''success'')"
    by (simp add: payload_failure_members)
  then show ?thesis
    using failed_toggle_writes_no_element
      [of "JSON payload_failure" host0 "''rsi''" NetworkFailure Resolved constructed]
    by (simp add: constructed_def template_def)
qed

section \<open>The first pass\<close>








end
